theory Spec2Isabelle
  imports Main
begin

section \<open>Uniswap v3 pool tags: the data model of \<^verbatim>\<open>src/main.mts\<close>\<close>

text \<open>
  A JavaScript string is a sequence of UTF-16 code units; \<^verbatim>\<open>length\<close> and
  \<^verbatim>\<open>substring\<close> count code units. The model uses \<^typ>\<open>string\<close>, one
  \<^typ>\<open>char\<close> standing for one code unit (the code units below 256).
\<close>

text \<open>
  The interfaces \<^verbatim>\<open>PoolToken\<close> and \<^verbatim>\<open>Token\<close> of the source are the same
  shape; \<^verbatim>\<open>Pool\<close> is declared twice and merged. The fields called \<^verbatim>\<open>id\<close> in the
  source are \<open>token_id\<close> and \<open>pool_id\<close> here (\<open>id\<close> is the identity function of HOL).
\<close>

record Token =
  token_id :: string
  name :: string
  symbol :: string

text \<open>
  \<^verbatim>\<open>createdAtTimestamp\<close> is a number holding unix seconds: the model takes the
  integer numbers.
\<close>

record Pool =
  pool_id :: string
  createdAtTimestamp :: int
  token0 :: Token
  token1 :: Token

text \<open>
  \<^verbatim>\<open>ContractTag\<close> (from \<^verbatim>\<open>atq-types\<close>): the five properties the source
  writes, \<^verbatim>\<open>"Contract Address"\<close>, \<^verbatim>\<open>"Public Name Tag"\<close>, \<^verbatim>\<open>"Project Name"\<close>,
  \<^verbatim>\<open>"UI/Website Link"\<close> and \<^verbatim>\<open>"Public Note"\<close>.
\<close>

record ContractTag =
  Contract_Address :: string
  Public_Name_Tag :: string
  Project_Name :: string
  UI_Website_Link :: string
  Public_Note :: string

text \<open>What the program writes to the console, in order.\<close>

datatype console =
  ConsoleError string
| ConsoleLog string "string list"

text \<open>
  A thrown value: an \<^verbatim>\<open>Error\<close> object (its \<^verbatim>\<open>name\<close> and its
  \<^verbatim>\<open>message\<close>), or any value that \<^verbatim>\<open>isError\<close> does not recognise.
\<close>

datatype thrown =
  ErrorObject (errorName: string) (errorMessage: string)
| OtherValue

fun isError :: "thrown \<Rightarrow> bool" where
  "isError (ErrorObject n m) = True"
| "isError OtherValue = False"

text \<open>
  \<^verbatim>\<open>`${error}`\<close> of an \<^verbatim>\<open>Error\<close> object is \<^verbatim>\<open>Error.prototype.toString\<close>:
  the name, \<^verbatim>\<open>": "\<close> and the message, or only one of them when the other is empty.
\<close>

fun errorToString :: "thrown \<Rightarrow> string" where
  "errorToString (ErrorObject n m) =
     (if n = [] then m else if m = [] then n else n @ '': '' @ m)"
| "errorToString OtherValue = []"

definition newError :: "string \<Rightarrow> thrown" where
  "newError m = ErrorObject ''Error'' m"

section \<open>Sanitising and truncating\<close>

text \<open>
  \<^verbatim>\<open>/<[^>]*>/.test(text)\<close>: the engine tries every start position; at a
  \<^verbatim>\<open><\<close> it reads characters other than \<^verbatim>\<open>>\<close> and then needs a \<^verbatim>\<open>>\<close>.
  \<open>closesTag\<close> is the part \<^verbatim>\<open>[^>]*>\<close> matched at the head of a string.
\<close>

fun closesTag :: "string \<Rightarrow> bool" where
  "closesTag [] = False"
| "closesTag (c # cs) = (if c = CHR ''>'' then True else closesTag cs)"

fun containsHtmlOrMarkdown :: "string \<Rightarrow> bool" where
  "containsHtmlOrMarkdown [] = False"
| "containsHtmlOrMarkdown (c # cs) =
     (if c = CHR ''<'' \<and> closesTag cs then True else containsHtmlOrMarkdown cs)"

text \<open>
  \<^verbatim>\<open>String.prototype.substring(start, end)\<close> on integers: both arguments are clamped
  to \<open>[0, length]\<close> and swapped when the first is the larger.
\<close>

definition substring :: "string \<Rightarrow> int \<Rightarrow> int \<Rightarrow> string" where
  "substring text indexStart indexEnd =
     (let len = int (length text);
          a = min (max indexStart 0) len;
          b = min (max indexEnd 0) len;
          lo = min a b;
          hi = max a b
      in take (nat (hi - lo)) (drop (nat lo) text))"

definition truncateString :: "string \<Rightarrow> int \<Rightarrow> string" where
  "truncateString text maxLength =
     (if int (length text) > maxLength
      then substring text 0 (maxLength - 3) @ ''...''
      else text)"

section \<open>transformPoolsToTags\<close>

definition tokenInvalid :: "Token \<Rightarrow> bool" where
  "tokenInvalid t = (containsHtmlOrMarkdown (name t) \<or> containsHtmlOrMarkdown (symbol t))"

definition rejectedName :: "Token \<Rightarrow> string" where
  "rejectedName t = name t @ '', Symbol: '' @ symbol t"

text \<open>
  The body of \<^verbatim>\<open>pools.forEach\<close>: the two arrays \<^verbatim>\<open>validPools\<close> and
  \<^verbatim>\<open>rejectedNames\<close> are the state, \<^verbatim>\<open>push\<close> appends at the end.
\<close>

definition classifyPool :: "Pool list \<times> string list \<Rightarrow> Pool \<Rightarrow> Pool list \<times> string list" where
  "classifyPool acc pool =
     (let validPools = fst acc;
          rejectedNames = snd acc;
          token0Invalid = tokenInvalid (token0 pool);
          token1Invalid = tokenInvalid (token1 pool)
      in if token0Invalid \<or> token1Invalid
         then (validPools,
               rejectedNames
                 @ (if token0Invalid then [rejectedName (token0 pool)] else [])
                 @ (if token1Invalid then [rejectedName (token1 pool)] else []))
         else (validPools @ [pool], rejectedNames))"

definition poolToTag :: "string \<Rightarrow> Pool \<Rightarrow> ContractTag" where
  "poolToTag chainId pool =
     (let maxSymbolsLength = 45;
          symbolsText = symbol (token0 pool) @ ''/'' @ symbol (token1 pool);
          truncatedSymbolsText = truncateString symbolsText maxSymbolsLength
      in \<lparr> Contract_Address = ''eip155:'' @ chainId @ '':'' @ pool_id pool,
           Public_Name_Tag = truncatedSymbolsText @ '' Pool'',
           Project_Name = ''Uniswap v3'',
           UI_Website_Link = ''https://uniswap.org'',
           Public_Note =
             ''The liquidity pool contract on Uniswap v3 for the ''
               @ name (token0 pool) @ '' ('' @ symbol (token0 pool) @ '') / ''
               @ name (token1 pool) @ '' ('' @ symbol (token1 pool) @ '') pair.'' \<rparr>)"

text \<open>
  The function returns the tags; what it logs (one \<^verbatim>\<open>console.log\<close> of all
  rejected names, when there is one) is the second component.
\<close>

definition transformPoolsToTags :: "string \<Rightarrow> Pool list \<Rightarrow> ContractTag list \<times> console list" where
  "transformPoolsToTags chainId pools =
     (let classified = foldl classifyPool ([], []) pools;
          validPools = fst classified;
          rejectedNames = snd classified
      in (map (poolToTag chainId) validPools,
          if length rejectedNames > 0
          then [ConsoleLog ''Rejected token names due to HTML/Markdown content:'' rejectedNames]
          else []))"

section \<open>prepareUrl\<close>

text \<open>
  \<^verbatim>\<open>SUBGRAPH_URLS\<close>, in the order of the source; the value of each key is its
  \<^verbatim>\<open>decentralized\<close> property.
\<close>

definition SUBGRAPH_URLS :: "(string \<times> string) list" where
  "SUBGRAPH_URLS =
     [(''1'', ''https://gateway-arbitrum.network.thegraph.com/api/[api-key]/deployments/id/QmZeCuoZeadgHkGwLwMeguyqUKz1WPWQYKcKyMCeQqGhsF''),
      (''137'', ''https://gateway-arbitrum.network.thegraph.com/api/[api-key]/deployments/id/QmdAaDAUDCypVB85eFUkQMkS5DE1HV4s7WJb6iSiygNvAw''),
      (''10'', ''https://gateway-arbitrum.network.thegraph.com/api/[api-key]/deployments/id/QmbTaWMFk4baXnoKQodnyYsFVKFNEiLsgZAe6eu2Sdj8Ef''),
      (''42220'', ''https://gateway-arbitrum.network.thegraph.com/api/[api-key]/deployments/id/QmXfJmxY7C4A4UoWEexvei8XzcSxMegr78rt3Rzz8szkZA'')]"

text \<open>
  \<^verbatim>\<open>SUBGRAPH_URLS[chainId]\<close> reads a property of an ordinary object: an own
  property first, then the ones inherited from \<^verbatim>\<open>Object.prototype\<close>, which are
  functions or objects (truthy, and without a \<^verbatim>\<open>decentralized\<close> property).
\<close>

definition objectPrototypeKeys :: "string list" where
  "objectPrototypeKeys =
     [''constructor'', ''__defineGetter__'', ''__defineSetter__'', ''hasOwnProperty'',
      ''__lookupGetter__'', ''__lookupSetter__'', ''isPrototypeOf'',
      ''propertyIsEnumerable'', ''toString'', ''valueOf'', ''__proto__'',
      ''toLocaleString'']"

datatype property = Undefined | OwnUrls string | Inherited

definition getProperty :: "(string \<times> string) list \<Rightarrow> string \<Rightarrow> property" where
  "getProperty obj key =
     (case map_of obj key of
        Some url \<Rightarrow> OwnUrls url
      | None \<Rightarrow> if key \<in> set objectPrototypeKeys then Inherited else Undefined)"

text \<open>
  \<^verbatim>\<open>isNaN(Number(chainId))\<close>: \<^verbatim>\<open>Number\<close> of a string is not \<^verbatim>\<open>NaN\<close> exactly when
  the string, with white space trimmed at both ends, is empty or a
  \<^verbatim>\<open>StrNumericLiteral\<close>: a binary, octal or hexadecimal integer literal, or an
  optionally signed \<^verbatim>\<open>Infinity\<close> or decimal literal with optional fraction and
  exponent.
\<close>

definition isStrWhiteSpaceChar :: "char \<Rightarrow> bool" where
  "isStrWhiteSpaceChar c =
     (c \<in> set [CHR 0x09, CHR 0x0A, CHR 0x0B, CHR 0x0C, CHR 0x0D, CHR 0x20, CHR 0xA0])"

definition isDecimalDigit :: "char \<Rightarrow> bool" where
  "isDecimalDigit c = (c \<in> set ''0123456789'')"

definition trimString :: "string \<Rightarrow> string" where
  "trimString s = rev (dropWhile isStrWhiteSpaceChar (rev (dropWhile isStrWhiteSpaceChar s)))"

definition allDigitsOf :: "string \<Rightarrow> string \<Rightarrow> bool" where
  "allDigitsOf alphabet s = (s \<noteq> [] \<and> list_all (\<lambda>c. c \<in> set alphabet) s)"

definition nonDecimalIntegerLiteral :: "string \<Rightarrow> bool" where
  "nonDecimalIntegerLiteral s =
     (let p = take 2 s; r = drop 2 s
      in ((p = ''0b'' \<or> p = ''0B'') \<and> allDigitsOf ''01'' r)
       \<or> ((p = ''0o'' \<or> p = ''0O'') \<and> allDigitsOf ''01234567'' r)
       \<or> ((p = ''0x'' \<or> p = ''0X'') \<and> allDigitsOf ''0123456789abcdefABCDEF'' r))"

definition exponentPartOpt :: "string \<Rightarrow> bool" where
  "exponentPartOpt s =
     (case s of
        [] \<Rightarrow> True
      | c # r \<Rightarrow>
          (c = CHR ''e'' \<or> c = CHR ''E'')
          \<and> allDigitsOf ''0123456789''
               (case r of
                  [] \<Rightarrow> []
                | d # r' \<Rightarrow> if d = CHR ''+'' \<or> d = CHR ''-'' then r' else r))"

definition strUnsignedDecimalLiteral :: "string \<Rightarrow> bool" where
  "strUnsignedDecimalLiteral s =
     (s = ''Infinity''
      \<or> (let ip = takeWhile isDecimalDigit s;
              r = dropWhile isDecimalDigit s
          in case r of
               [] \<Rightarrow> ip \<noteq> []
             | c # r1 \<Rightarrow>
                 if c = CHR ''.''
                 then (ip \<noteq> [] \<or> takeWhile isDecimalDigit r1 \<noteq> [])
                      \<and> exponentPartOpt (dropWhile isDecimalDigit r1)
                 else ip \<noteq> [] \<and> exponentPartOpt r))"

definition strDecimalLiteral :: "string \<Rightarrow> bool" where
  "strDecimalLiteral s =
     (case s of
        [] \<Rightarrow> False
      | c # r \<Rightarrow>
          if c = CHR ''+'' \<or> c = CHR ''-'' then strUnsignedDecimalLiteral r
          else strUnsignedDecimalLiteral s)"

definition isNaN_Number :: "string \<Rightarrow> bool" where
  "isNaN_Number s =
     (let t = trimString s
      in \<not> (t = [] \<or> nonDecimalIntegerLiteral t \<or> strDecimalLiteral t))"

text \<open>
  \<^verbatim>\<open>Object.keys\<close> lists the keys that are array indices first, in ascending numeric
  order; all four keys of \<^verbatim>\<open>SUBGRAPH_URLS\<close> are.
\<close>

definition indexOfKey :: "string \<Rightarrow> nat" where
  "indexOfKey k = foldl (\<lambda>n c. 10 * n + (of_char c - 48)) 0 k"

definition Object_keys :: "(string \<times> string) list \<Rightarrow> string list" where
  "Object_keys obj = sort_key indexOfKey (map fst obj)"

fun join :: "string \<Rightarrow> string list \<Rightarrow> string" where
  "join sep [] = []"
| "join sep [x] = x"
| "join sep (x # y # ys) = x @ sep @ join sep (y # ys)"

text \<open>
  \<^verbatim>\<open>encodeURIComponent\<close>: letters, digits and \<^verbatim>\<open>-_.!~*'()\<close> stay; any other code
  unit is written as the bytes of its UTF-8 encoding, each as \<^verbatim>\<open>%\<close> and two
  upper-case hexadecimal digits (one byte below 128, two bytes from 128 to 255).
\<close>

definition uriUnreserved :: "char \<Rightarrow> bool" where
  "uriUnreserved c =
     (c \<in> set (''ABCDEFGHIJKLMNOPQRSTUVWXYZabcdefghijklmnopqrstuvwxyz0123456789-_.!~*()'' @ [CHR 0x27]))"

definition percentByte :: "nat \<Rightarrow> string" where
  "percentByte b =
     [CHR ''%'', ''0123456789ABCDEF'' ! (b div 16), ''0123456789ABCDEF'' ! (b mod 16)]"

definition encodeUnit :: "char \<Rightarrow> string" where
  "encodeUnit c =
     (let n = (of_char c :: nat)
      in if uriUnreserved c then [c]
         else if n < 128 then percentByte n
         else percentByte (192 + n div 64) @ percentByte (128 + n mod 64))"

definition encodeURIComponent :: "string \<Rightarrow> string" where
  "encodeURIComponent s = concat (map encodeUnit s)"

text \<open>
  \<^verbatim>\<open>text.replace(pattern, replacement)\<close> with a string pattern replaces the first
  occurrence. The replacement here is an output of \<^verbatim>\<open>encodeURIComponent\<close>, which
  holds no \<^verbatim>\<open>$\<close>, so none of the replacement patterns of \<^verbatim>\<open>replace\<close> occurs.
\<close>

fun replaceFirst :: "string \<Rightarrow> string \<Rightarrow> string \<Rightarrow> string" where
  "replaceFirst pat rep [] = (if pat = [] then rep else [])"
| "replaceFirst pat rep (c # cs) =
     (if take (length pat) (c # cs) = pat then rep @ drop (length pat) (c # cs)
      else c # replaceFirst pat rep cs)"

definition prepareUrl :: "string \<Rightarrow> string \<Rightarrow> thrown + string" where
  "prepareUrl chainId apiKey =
     (let urls = getProperty SUBGRAPH_URLS chainId
      in if urls = Undefined \<or> isNaN_Number chainId
         then
           (let supportedChainIds = join '', '' (Object_keys SUBGRAPH_URLS)
            in Inl (newError (''Unsupported or invalid Chain ID provided: '' @ chainId
                       @ ''. Only the following values are accepted: '' @ supportedChainIds)))
         else
           (case urls of
              OwnUrls decentralized \<Rightarrow>
                Inr (replaceFirst ''[api-key]'' (encodeURIComponent apiKey) decentralized)
            | _ \<Rightarrow>
                Inl (ErrorObject ''TypeError''
                       ''Cannot read properties of undefined (reading 'replace')'')))"

section \<open>fetchData\<close>

text \<open>
  The body of a response as \<^verbatim>\<open>GraphQLResponse\<close>: \<^verbatim>\<open>data\<close> and
  \<^verbatim>\<open>errors\<close> are optional; the source also tests \<^verbatim>\<open>data.pools\<close> for
  presence.
\<close>

record ErrorEntry =
  message :: string

record GraphQLData =
  pools :: "Pool list option"

record GraphQLResponse =
  data :: "GraphQLData option"
  errors :: "ErrorEntry list option"

text \<open>
  What the network gives back to one call of \<^verbatim>\<open>fetchData\<close>: \<^verbatim>\<open>fetch\<close>
  rejects or resolves with a response, of which the source reads \<^verbatim>\<open>ok\<close>,
  \<^verbatim>\<open>status\<close> and \<^verbatim>\<open>json()\<close>, which itself rejects or resolves with the body.
  The source tests \<^verbatim>\<open>ok\<close> and prints \<^verbatim>\<open>status\<close>; the model keeps both as it
  reads them (a response has \<^verbatim>\<open>ok\<close> when its status is from 200 to 299).
\<close>

datatype json_result = JsonThrows thrown | JsonValue GraphQLResponse

record Response =
  ok :: bool
  status :: nat
  json :: json_result

datatype fetch_result = FetchThrows thrown | FetchResolves Response

text \<open>
  The request of one call: the URL and \<^verbatim>\<open>variables.lastTimestamp\<close>; method,
  headers and query text are the same in every request.
\<close>

record request =
  subgraphUrl :: string
  variables_lastTimestamp :: int

record fetched =
  sent :: request
  result :: "thrown + Pool list"
  logs :: "console list"

text \<open>The decimal numeral of a number, as a template literal prints it.\<close>

fun showNat :: "nat \<Rightarrow> string" where
  "showNat n =
     (if n < 10 then [''0123456789'' ! n]
      else showNat (n div 10) @ [''0123456789'' ! (n mod 10)])"

declare showNat.simps [simp del]

definition fetchData :: "string \<Rightarrow> int \<Rightarrow> fetch_result \<Rightarrow> fetched" where
  "fetchData url lastTs reply =
     (let req = \<lparr> subgraphUrl = url, variables_lastTimestamp = lastTs \<rparr>
      in case reply of
           FetchThrows e \<Rightarrow> \<lparr> sent = req, result = Inl e, logs = [] \<rparr>
         | FetchResolves response \<Rightarrow>
             if \<not> ok response
             then \<lparr> sent = req,
                    result = Inl (newError (''HTTP error: '' @ showNat (status response))),
                    logs = [] \<rparr>
             else
               (case json response of
                  JsonThrows e \<Rightarrow> \<lparr> sent = req, result = Inl e, logs = [] \<rparr>
                | JsonValue res \<Rightarrow>
                    (case errors res of
                       Some es \<Rightarrow>
                         \<lparr> sent = req,
                           result = Inl (newError ''GraphQL errors occurred: see logs for details.''),
                           logs = map (\<lambda>error. ConsoleError (''GraphQL error: '' @ message error)) es \<rparr>
                     | None \<Rightarrow>
                         (case data res of
                            None \<Rightarrow>
                              \<lparr> sent = req, result = Inl (newError ''No pools data found.''),
                                logs = [] \<rparr>
                          | Some d \<Rightarrow>
                              (case pools d of
                                 None \<Rightarrow>
                                   \<lparr> sent = req, result = Inl (newError ''No pools data found.''),
                                     logs = [] \<rparr>
                               | Some ps \<Rightarrow> \<lparr> sent = req, result = Inr ps, logs = [] \<rparr>)))))"

section \<open>TagService.returnTags\<close>

text \<open>
  The promise of \<^verbatim>\<open>returnTags\<close> resolves with the tag list or rejects with the
  thrown value.
\<close>

datatype outcome = Resolved "ContractTag list" | Rejected thrown

text \<open>
  The variables of one invocation, with the requests issued and the console lines written
  so far.
\<close>

record run_state =
  lastTimestamp :: int
  allTags :: "ContractTag list"
  requests :: "request list"
  logged :: "console list"

text \<open>
  \<^verbatim>\<open>parseInt(n.toString(), 10)\<close> for an integer number \<open>n\<close>. Below \<open>10\<^sup>2\<^sup>1\<close> in
  magnitude \<^verbatim>\<open>toString\<close> prints a plain decimal numeral that denotes the same number,
  and \<^verbatim>\<open>parseInt\<close> reads it back. From \<open>10\<^sup>2\<^sup>1\<close> on \<^verbatim>\<open>toString\<close> prints
  the shortest numeral that rounds to the number in exponent notation
  (\<^verbatim>\<open>1e+21\<close>, \<^verbatim>\<open>1.5e+21\<close>), and \<^verbatim>\<open>parseInt\<close> stops at the point or the
  \<^verbatim>\<open>e\<close>: the result is the first digit, with the sign. That digit is the first
  decimal digit \<open>d\<close> of the number, unless the next multiple \<open>(d + 1) * 10\<^sup>j\<close> of its
  leading power of ten still rounds to the same number (it lies within half the spacing
  \<open>2\<^sup>e\<close> of the numbers with 53 significant bits; a tie goes to the even significand):
  then that shorter numeral is printed and read.
\<close>

fun bitLength :: "nat \<Rightarrow> nat" where
  "bitLength n = (if n = 0 then 0 else Suc (bitLength (n div 2)))"

declare bitLength.simps [simp del]

fun decimalLength :: "nat \<Rightarrow> nat" where
  "decimalLength n = (if n < 10 then 1 else Suc (decimalLength (n div 10)))"

declare decimalLength.simps [simp del]

definition exponentLeadingDigit :: "nat \<Rightarrow> nat" where
  "exponentLeadingDigit v =
     (let j = decimalLength v - 1;
          d = v div 10 ^ j;
          e = bitLength v - 53;
          m = v div 2 ^ e;
          hi = v + 2 ^ (e - 1);
          next = (d + 1) * 10 ^ j
      in if next < hi \<or> (next = hi \<and> even m)
         then (if d = 9 then 1 else d + 1)
         else d)"

definition parseInt_toString :: "int \<Rightarrow> int" where
  "parseInt_toString n =
     (if \<bar>n\<bar> < 10 ^ 21 then n
      else sgn n * int (exponentLeadingDigit (nat \<bar>n\<bar>)))"

text \<open>
  The \<^verbatim>\<open>while (isMore)\<close> loop. The network is a list of replies, the next call of
  \<^verbatim>\<open>fetchData\<close> taking the first. The loop has no bound of its own: when the list
  is used up and the loop asks for another page, the invocation has not settled, and the
  outcome is \<open>None\<close>.
\<close>

fun returnTagsLoop ::
  "string \<Rightarrow> string \<Rightarrow> fetch_result list \<Rightarrow> run_state \<Rightarrow> outcome option \<times> run_state" where
  "returnTagsLoop chainId url [] st = (None, st)"
| "returnTagsLoop chainId url (reply # replies) st =
     (let f = fetchData url (lastTimestamp st) reply;
          st1 = st\<lparr> requests := requests st @ [sent f], logged := logged st @ logs f \<rparr>
      in case result f of
           Inl error \<Rightarrow>
             if isError error
             then (Some (Rejected (newError (''Failed fetching data: '' @ errorToString error))),
                   st1\<lparr> logged := logged st1
                          @ [ConsoleError (''An error occurred: '' @ errorMessage error)] \<rparr>)
             else (Some (Rejected (newError ''An unknown error occurred during fetch operation.'')),
                   st1\<lparr> logged := logged st1 @ [ConsoleError ''An unknown error occurred.''] \<rparr>)
         | Inr ps \<Rightarrow>
             (let t = transformPoolsToTags chainId ps;
                  st2 = st1\<lparr> allTags := allTags st1 @ fst t, logged := logged st1 @ snd t \<rparr>;
                  isMore = (length ps = 1000)
              in if isMore
                 then returnTagsLoop chainId url replies
                        (st2\<lparr> lastTimestamp :=
                                parseInt_toString (createdAtTimestamp (last ps)) \<rparr>)
                 else (Some (Resolved (allTags st2)), st2)))"

declare returnTagsLoop.simps [simp del]

definition initialState :: run_state where
  "initialState = \<lparr> lastTimestamp = 0, allTags = [], requests = [], logged = [] \<rparr>"

text \<open>
  \<^verbatim>\<open>prepareUrl\<close> is called before the \<^verbatim>\<open>try\<close>: what it throws rejects the
  promise as it is.
\<close>

definition returnTags ::
  "string \<Rightarrow> string \<Rightarrow> fetch_result list \<Rightarrow> outcome option \<times> run_state" where
  "returnTags chainId apiKey replies =
     (case prepareUrl chainId apiKey of
        Inl e \<Rightarrow> (Some (Rejected e), initialState)
      | Inr url \<Rightarrow> returnTagsLoop chainId url replies initialState)"

section \<open>Notions used in the properties, and example inputs\<close>

text \<open>
  A pool is rejected when \<^verbatim>\<open>token0Invalid || token1Invalid\<close> holds for it.
\<close>

definition poolRejected :: "Pool \<Rightarrow> bool" where
  "poolRejected pool = (tokenInvalid (token0 pool) \<or> tokenInvalid (token1 pool))"

text \<open>
  Example tokens and pools: a plain pair, a pool whose second token has a
  \<^verbatim>\<open><script>\<close> tag in its name, and a pool whose symbols make 53 characters.
\<close>

definition usdc :: Token where
  "usdc = \<lparr> token_id = ''0xa0b86991c6218b36c1d19d4a2e9eb0ce3606eb48'', name = ''USD Coin'', symbol = ''USDC'' \<rparr>"

definition weth :: Token where
  "weth = \<lparr> token_id = ''0xc02aaa39b223fe8d0a0e5c4f27ead9083c756cc2'', name = ''Wrapped Ether'', symbol = ''WETH'' \<rparr>"

definition scriptToken :: Token where
  "scriptToken = \<lparr> token_id = ''0x01'', name = ''<script>alert(1)</script>'', symbol = ''XSS'' \<rparr>"

definition longToken0 :: Token where
  "longToken0 = \<lparr> token_id = ''0x02'', name = ''Upper'', symbol = ''ABCDEFGHIJKLMNOPQRSTUVWXYZ'' \<rparr>"

definition longToken1 :: Token where
  "longToken1 = \<lparr> token_id = ''0x03'', name = ''Lower'', symbol = ''abcdefghijklmnopqrstuvwxyz'' \<rparr>"

definition usdcWethPool :: Pool where
  "usdcWethPool = \<lparr> pool_id = ''0xabc'', createdAtTimestamp = 1620000000, token0 = usdc, token1 = weth \<rparr>"

definition scriptPool :: Pool where
  "scriptPool = \<lparr> pool_id = ''0xbad'', createdAtTimestamp = 1620000001, token0 = usdc, token1 = scriptToken \<rparr>"

definition longPool :: Pool where
  "longPool = \<lparr> pool_id = ''0xdef'', createdAtTimestamp = 1620000002, token0 = longToken0, token1 = longToken1 \<rparr>"

text \<open>The URL of chain \<^verbatim>\<open>"1"\<close> with the API key \<^verbatim>\<open>"K1"\<close>.\<close>

definition exampleUrl :: string where
  "exampleUrl = ''https://gateway-arbitrum.network.thegraph.com/api/K1/deployments/id/QmZeCuoZeadgHkGwLwMeguyqUKz1WPWQYKcKyMCeQqGhsF''"

text \<open>
  Example replies: a successful response holding a page of pools, and three pages of
  1000, 1000 and 400 pools with increasing timestamps.
\<close>

definition pageReply :: "Pool list \<Rightarrow> fetch_result" where
  "pageReply ps =
     FetchResolves \<lparr> ok = True, status = 200,
       json = JsonValue \<lparr> data = Some \<lparr> pools = Some ps \<rparr>, errors = None \<rparr> \<rparr>"

definition numberedPool :: "nat \<Rightarrow> Pool" where
  "numberedPool i =
     \<lparr> pool_id = ''0x'' @ showNat i, createdAtTimestamp = 1620000000 + int i,
       token0 = usdc, token1 = weth \<rparr>"

definition page1 :: "Pool list" where
  "page1 = map numberedPool [0..<1000]"

definition page2 :: "Pool list" where
  "page2 = map (\<lambda>i. numberedPool (1000 + i)) [0..<1000]"

definition page3 :: "Pool list" where
  "page3 = map (\<lambda>i. numberedPool (2000 + i)) [0..<400]"

text \<open>
  Example replies that fail: a response with status 503, and two successful responses
  whose body has an \<^verbatim>\<open>errors\<close> array, with two entries and with none.
\<close>

definition httpErrorReply :: fetch_result where
  "httpErrorReply =
     FetchResolves \<lparr> ok = False, status = 503,
       json = JsonValue \<lparr> data = None, errors = None \<rparr> \<rparr>"

definition graphqlErrorsReply :: fetch_result where
  "graphqlErrorsReply =
     FetchResolves \<lparr> ok = True, status = 200,
       json = JsonValue \<lparr> data = None,
         errors = Some [\<lparr> message = ''bad query'' \<rparr>, \<lparr> message = ''timeout'' \<rparr>] \<rparr> \<rparr>"

definition emptyErrorsReply :: fetch_result where
  "emptyErrorsReply =
     FetchResolves \<lparr> ok = True, status = 200,
       json = JsonValue \<lparr> data = None, errors = Some [] \<rparr> \<rparr>"

text \<open>The state of the loop after the first of the example pages.\<close>

definition afterPage1 :: run_state where
  "afterPage1 =
     \<lparr> lastTimestamp = 1620000999,
       allTags = fst (transformPoolsToTags ''1'' page1),
       requests = [\<lparr> subgraphUrl = exampleUrl, variables_lastTimestamp = 0 \<rparr>],
       logged = snd (transformPoolsToTags ''1'' page1) \<rparr>"

section \<open>Properties of the transformer\<close>

lemma closesTag_iff: "closesTag cs \<longleftrightarrow> CHR ''>'' \<in> set cs"
  by (induction cs) auto

lemma containsHtmlOrMarkdown_append:
  "containsHtmlOrMarkdown ys \<Longrightarrow> containsHtmlOrMarkdown (xs @ ys)"
  by (induction xs) auto

lemma containsHtmlOrMarkdown_tag:
  "containsHtmlOrMarkdown (pre @ ''<'' @ mid @ ''>'' @ post)"
  by (rule containsHtmlOrMarkdown_append) (simp add: closesTag_iff)

lemma containsHtmlOrMarkdown_iff:
  "containsHtmlOrMarkdown text \<longleftrightarrow> (\<exists>pre mid post. text = pre @ ''<'' @ mid @ ''>'' @ post)"
proof
  show "containsHtmlOrMarkdown text \<Longrightarrow> \<exists>pre mid post. text = pre @ ''<'' @ mid @ ''>'' @ post"
  proof (induction "text")
    case Nil
    then show ?case by simp
  next
    case (Cons c cs)
    show ?case
    proof (cases "c = CHR ''<'' \<and> closesTag cs")
      case True
      then have "CHR ''>'' \<in> set cs" by (simp add: closesTag_iff)
      then obtain mid post where "cs = mid @ CHR ''>'' # post"
        by (auto simp: in_set_conv_decomp)
      with True have "c # cs = [] @ ''<'' @ mid @ ''>'' @ post" by simp
      then show ?thesis by blast
    next
      case False
      with Cons.prems have "containsHtmlOrMarkdown cs" by auto
      with Cons.IH obtain pre mid post where "cs = pre @ ''<'' @ mid @ ''>'' @ post" by blast
      then have "c # cs = (c # pre) @ ''<'' @ mid @ ''>'' @ post" by simp
      then show ?thesis by blast
    qed
  qed
next
  show "\<exists>pre mid post. text = pre @ ''<'' @ mid @ ''>'' @ post \<Longrightarrow> containsHtmlOrMarkdown text"
    using containsHtmlOrMarkdown_tag by blast
qed

lemma foldl_classifyPool:
  "foldl classifyPool acc ps =
     (fst acc @ filter (\<lambda>p. \<not> poolRejected p) ps,
      snd acc @ concat (map (\<lambda>p. (if tokenInvalid (token0 p) then [rejectedName (token0 p)] else [])
                                @ (if tokenInvalid (token1 p) then [rejectedName (token1 p)] else [])) ps))"
proof (induction ps arbitrary: acc)
  case Nil
  then show ?case by simp
next
  case (Cons p ps)
  have step: "classifyPool acc p =
      (if poolRejected p
       then (fst acc, snd acc @ (if tokenInvalid (token0 p) then [rejectedName (token0 p)] else [])
                              @ (if tokenInvalid (token1 p) then [rejectedName (token1 p)] else []))
       else (fst acc @ [p], snd acc))"
    by (simp add: classifyPool_def poolRejected_def Let_def)
  show ?case
    by (simp add: Cons.IH step) (simp add: poolRejected_def)
qed

lemma fst_transformPoolsToTags:
  "fst (transformPoolsToTags chainId ps) = map (poolToTag chainId) (filter (\<lambda>p. \<not> poolRejected p) ps)"
  by (simp add: transformPoolsToTags_def Let_def foldl_classifyPool)

lemma length_truncateString:
  "3 \<le> maxLength \<Longrightarrow> int (length (truncateString text maxLength)) \<le> maxLength"
  by (auto simp: truncateString_def substring_def Let_def)

lemma truncateString_long:
  "45 < length text \<Longrightarrow> truncateString text 45 = take 42 text @ ''...''"
  by (simp add: truncateString_def substring_def Let_def)

lemma truncateString_short:
  "length text \<le> 45 \<Longrightarrow> truncateString text 45 = text"
  by (simp add: truncateString_def)

lemma poolRejected_usdcWethPool: "\<not> poolRejected usdcWethPool"
  by (simp add: poolRejected_def tokenInvalid_def usdcWethPool_def usdc_def weth_def)

lemma poolRejected_longPool: "\<not> poolRejected longPool"
  by (simp add: poolRejected_def tokenInvalid_def longPool_def longToken0_def longToken1_def)

lemma poolRejected_scriptPool: "poolRejected scriptPool"
  by (simp add: poolRejected_def tokenInvalid_def scriptPool_def scriptToken_def usdc_def)

lemma poolRejected_field:
  assumes "field \<in> {name (token0 pool), symbol (token0 pool), name (token1 pool), symbol (token1 pool)}"
    and "containsHtmlOrMarkdown field"
  shows "poolRejected pool"
  using assms by (auto simp: poolRejected_def tokenInvalid_def)

lemma filter_removeAll_rejected:
  "poolRejected pool \<Longrightarrow>
     filter (\<lambda>p. \<not> poolRejected p) (removeAll pool ps) = filter (\<lambda>p. \<not> poolRejected p) ps"
  by (induction ps) auto

text \<open>
  Claim C3. A pool one of whose four token strings (the names and symbols of
  \<^verbatim>\<open>token0\<close> and \<^verbatim>\<open>token1\<close>) contains a \<^verbatim>\<open><\<close> followed, anywhere later, by a
  \<^verbatim>\<open>>\<close> contributes no tag: transformed alone it gives no tag, and taking it out of
  the input (one occurrence, or all of them) leaves the output list unchanged.
\<close>

theorem C3_html_pool_excluded:
  assumes "field \<in> {name (token0 pool), symbol (token0 pool),
                      name (token1 pool), symbol (token1 pool)}"
    and "field = pre @ ''<'' @ mid @ ''>'' @ post"
  shows "fst (transformPoolsToTags chainId [pool]) = []
       \<and> fst (transformPoolsToTags chainId (before @ pool # after))
           = fst (transformPoolsToTags chainId (before @ after))
       \<and> fst (transformPoolsToTags chainId ps)
           = fst (transformPoolsToTags chainId (removeAll pool ps))"
proof -
  have "containsHtmlOrMarkdown field"
    unfolding assms(2) by (rule containsHtmlOrMarkdown_tag)
  with assms(1) have rej: "poolRejected pool"
    by (rule poolRejected_field)
  then show ?thesis
    by (simp add: fst_transformPoolsToTags filter_removeAll_rejected)
qed

theorem C3_html_pool_excluded_witness:
  "name (token1 scriptPool) = [] @ ''<'' @ ''script'' @ ''>'' @ ''alert(1)</script>''
   \<and> fst (transformPoolsToTags ''1'' [scriptPool]) = []
   \<and> fst (transformPoolsToTags ''1'' ([usdcWethPool] @ scriptPool # [longPool]))
       = fst (transformPoolsToTags ''1'' ([usdcWethPool] @ [longPool]))
   \<and> length (fst (transformPoolsToTags ''1'' [usdcWethPool, scriptPool, longPool])) = 2"
proof -
  have f: "name (token1 scriptPool) = [] @ ''<'' @ ''script'' @ ''>'' @ ''alert(1)</script>''"
    by (simp add: scriptPool_def scriptToken_def)
  have m: "name (token1 scriptPool) \<in> {name (token0 scriptPool), symbol (token0 scriptPool),
             name (token1 scriptPool), symbol (token1 scriptPool)}"
    by simp
  have two: "length (fst (transformPoolsToTags ''1'' ([usdcWethPool] @ [longPool]))) = 2"
    by (simp add: fst_transformPoolsToTags poolRejected_usdcWethPool poolRejected_longPool)
  from C3_html_pool_excluded [OF m f, of "''1''" "[usdcWethPool]" "[longPool]" "[]"] f two
  show ?thesis by simp
qed

lemma ellipsis_shape:
  assumes "45 < length s"
  shows "length (take 42 s @ ''...'') = 45 \<and> drop 42 (take 42 s @ ''...'') = ''...''
       \<and> take 42 (take 42 s @ ''...'') = take 42 s"
proof -
  have "length (take 42 s) = 42" using assms by simp
  then show ?thesis by simp
qed

text \<open>
  Claim C4. For a pool that is not rejected and whose string
  \<^verbatim>\<open>token0.symbol/token1.symbol\<close> is longer than 45, the name tag is a symbols part
  followed by \<^verbatim>\<open>" Pool"\<close>; the symbols part has length 45, ends in \<^verbatim>\<open>"..."\<close>
  and starts with the first 42 characters of the combined string.
\<close>

theorem C4_long_symbols_truncated:
  assumes "\<not> poolRejected pool"
    and "45 < length (symbol (token0 pool) @ ''/'' @ symbol (token1 pool))"
  shows "\<exists>tag symbols.
           fst (transformPoolsToTags chainId [pool]) = [tag]
         \<and> Public_Name_Tag tag = symbols @ '' Pool''
         \<and> length symbols = 45
         \<and> drop 42 symbols = ''...''
         \<and> take 42 symbols = take 42 (symbol (token0 pool) @ ''/'' @ symbol (token1 pool))"
proof -
  define s where "s = symbol (token0 pool) @ ''/'' @ symbol (token1 pool)"
  have long: "45 < length s"
    using assms(2) by (simp add: s_def)
  have "fst (transformPoolsToTags chainId [pool]) = [poolToTag chainId pool]"
    using assms(1) by (simp add: fst_transformPoolsToTags)
  moreover have "Public_Name_Tag (poolToTag chainId pool) = (take 42 s @ ''...'') @ '' Pool''"
    using truncateString_long [OF long] by (simp add: poolToTag_def Let_def s_def)
  moreover note ellipsis_shape [OF long]
  ultimately show ?thesis
    unfolding s_def by blast
qed

theorem C4_long_symbols_truncated_witness:
  "45 < length (symbol (token0 longPool) @ ''/'' @ symbol (token1 longPool))
   \<and> map Public_Name_Tag (fst (transformPoolsToTags ''1'' [longPool]))
       = [''ABCDEFGHIJKLMNOPQRSTUVWXYZ/abcdefghijklmno... Pool'']"
proof -
  have h: "45 < length (symbol (token0 longPool) @ ''/'' @ symbol (token1 longPool))"
    by (simp add: longPool_def longToken0_def longToken1_def)
  from C4_long_symbols_truncated [OF poolRejected_longPool h, of "''1''"]
  obtain tag symbols where
    a: "fst (transformPoolsToTags ''1'' [longPool]) = [tag]"
    and b: "Public_Name_Tag tag = symbols @ '' Pool''"
    and c: "length symbols = 45" and d: "drop 42 symbols = ''...''"
    and e: "take 42 symbols = take 42 (symbol (token0 longPool) @ ''/'' @ symbol (token1 longPool))"
    by blast
  have "symbols = take 42 symbols @ drop 42 symbols" by simp
  also have "\<dots> = ''ABCDEFGHIJKLMNOPQRSTUVWXYZ/abcdefghijklmno...''"
    unfolding d e by (simp add: longPool_def longToken0_def longToken1_def)
  finally show ?thesis using h a b by simp
qed

lemma poolToTag_fields:
  "poolToTag chainId pool =
     \<lparr> Contract_Address = ''eip155:'' @ chainId @ '':'' @ pool_id pool,
       Public_Name_Tag =
         (if length (symbol (token0 pool) @ ''/'' @ symbol (token1 pool)) \<le> 45
          then symbol (token0 pool) @ ''/'' @ symbol (token1 pool)
          else take 42 (symbol (token0 pool) @ ''/'' @ symbol (token1 pool)) @ ''...'')
         @ '' Pool'',
       Project_Name = ''Uniswap v3'',
       UI_Website_Link = ''https://uniswap.org'',
       Public_Note =
         ''The liquidity pool contract on Uniswap v3 for the ''
           @ name (token0 pool) @ '' ('' @ symbol (token0 pool) @ '') / ''
           @ name (token1 pool) @ '' ('' @ symbol (token1 pool) @ '') pair.'' \<rparr>"
proof (cases "length (symbol (token0 pool) @ ''/'' @ symbol (token1 pool)) \<le> 45")
  case True
  from truncateString_short [OF True] True show ?thesis
    by (simp add: poolToTag_def Let_def)
next
  case False
  then have "45 < length (symbol (token0 pool) @ ''/'' @ symbol (token1 pool))" by simp
  from truncateString_long [OF this] False show ?thesis
    by (simp add: poolToTag_def Let_def)
qed

text \<open>
  Claim C6. The tag list is the list of the pools that are not rejected, in their order,
  each mapped to the record with \<^verbatim>\<open>"Contract Address"\<close> \<^verbatim>\<open>eip155:<chainId>:<pool id>\<close>,
  \<^verbatim>\<open>"Public Name Tag"\<close> the string \<^verbatim>\<open>token0.symbol/token1.symbol\<close> (cut to its
  first 42 characters and \<^verbatim>\<open>"..."\<close> when longer than 45) followed by \<^verbatim>\<open>" Pool"\<close>,
  the two constants, and the note built from both names and symbols. In particular a
  valid pool with symbols USDC and WETH and id 0xabc on chain 1 gives the address
  \<^verbatim>\<open>eip155:1:0xabc\<close> and the name tag \<^verbatim>\<open>USDC/WETH Pool\<close>.
\<close>

theorem C6_tag_fields:
  "fst (transformPoolsToTags chainId ps) =
     map (\<lambda>pool.
       \<lparr> Contract_Address = ''eip155:'' @ chainId @ '':'' @ pool_id pool,
         Public_Name_Tag =
           (if length (symbol (token0 pool) @ ''/'' @ symbol (token1 pool)) \<le> 45
            then symbol (token0 pool) @ ''/'' @ symbol (token1 pool)
            else take 42 (symbol (token0 pool) @ ''/'' @ symbol (token1 pool)) @ ''...'')
           @ '' Pool'',
         Project_Name = ''Uniswap v3'',
         UI_Website_Link = ''https://uniswap.org'',
         Public_Note =
           ''The liquidity pool contract on Uniswap v3 for the ''
             @ name (token0 pool) @ '' ('' @ symbol (token0 pool) @ '') / ''
             @ name (token1 pool) @ '' ('' @ symbol (token1 pool) @ '') pair.'' \<rparr>)
       (filter (\<lambda>pool. \<not> poolRejected pool) ps)
   \<and> (\<not> poolRejected p \<and> symbol (token0 p) = ''USDC'' \<and> symbol (token1 p) = ''WETH''
        \<and> pool_id p = ''0xabc''
      \<longrightarrow> map Contract_Address (fst (transformPoolsToTags ''1'' [p])) = [''eip155:1:0xabc'']
        \<and> map Public_Name_Tag (fst (transformPoolsToTags ''1'' [p])) = [''USDC/WETH Pool''])"
  by (simp add: fst_transformPoolsToTags poolToTag_fields)

theorem C6_tag_fields_witness:
  "fst (transformPoolsToTags ''1'' [usdcWethPool, scriptPool]) =
     [\<lparr> Contract_Address = ''eip155:1:0xabc'',
        Public_Name_Tag = ''USDC/WETH Pool'',
        Project_Name = ''Uniswap v3'',
        UI_Website_Link = ''https://uniswap.org'',
        Public_Note = ''The liquidity pool contract on Uniswap v3 for the USD Coin (USDC) / Wrapped Ether (WETH) pair.'' \<rparr>]"
  using C6_tag_fields [of "''1''" "[usdcWethPool, scriptPool]" usdcWethPool]
    poolRejected_usdcWethPool poolRejected_scriptPool
  by (simp add: usdcWethPool_def usdc_def weth_def)

text \<open>
  Claim C8. The tags returned are a function of the chain identifier and the pools only:
  the pools that are not rejected, in the order of the input, each mapped to its tag.
  So the transform of a concatenation is the concatenation of the transforms.
\<close>

theorem C8_order_preserving:
  "fst (transformPoolsToTags chainId ps)
     = map (poolToTag chainId) (filter (\<lambda>pool. \<not> poolRejected pool) ps)
   \<and> fst (transformPoolsToTags chainId (xs @ ys))
     = fst (transformPoolsToTags chainId xs) @ fst (transformPoolsToTags chainId ys)"
  by (simp add: fst_transformPoolsToTags)

theorem C8_order_preserving_witness:
  "map Contract_Address (fst (transformPoolsToTags ''10'' ([longPool, scriptPool] @ [usdcWethPool])))
     = [''eip155:10:0xdef'', ''eip155:10:0xabc'']"
  using C8_order_preserving [of "''10''" "[longPool, scriptPool, usdcWethPool]" "[longPool, scriptPool]" "[usdcWethPool]"]
    poolRejected_usdcWethPool poolRejected_scriptPool poolRejected_longPool
  by (simp add: poolToTag_def Let_def usdcWethPool_def longPool_def)

lemma length_Public_Name_Tag:
  "length (Public_Name_Tag (poolToTag chainId pool)) \<le> 50"
proof -
  have "int (length (truncateString (symbol (token0 pool) @ ''/'' @ symbol (token1 pool)) 45)) \<le> 45"
    by (rule length_truncateString) simp
  then show ?thesis
    by (simp add: poolToTag_def Let_def)
qed

lemma transformPoolsToTags_name_bound:
  "tag \<in> set (fst (transformPoolsToTags chainId ps)) \<Longrightarrow> length (Public_Name_Tag tag) \<le> 50"
  by (auto simp: fst_transformPoolsToTags length_Public_Name_Tag)

section \<open>Properties of prepareUrl\<close>

lemma indexOfKey_supported:
  "indexOfKey ''1'' = 1" "indexOfKey ''137'' = 137" "indexOfKey ''10'' = 10" "indexOfKey ''42220'' = 42220"
  by (simp_all add: indexOfKey_def)

lemma Object_keys_SUBGRAPH_URLS: "Object_keys SUBGRAPH_URLS = [''1'', ''10'', ''137'', ''42220'']"
  by (simp add: Object_keys_def SUBGRAPH_URLS_def sort_key_def indexOfKey_supported)

lemma supportedChainIds: "join '', '' (Object_keys SUBGRAPH_URLS) = ''1, 10, 137, 42220''"
  by (simp add: Object_keys_SUBGRAPH_URLS)

lemma isNaN_Number_objectPrototypeKeys: "list_all isNaN_Number objectPrototypeKeys"
  by code_simp

lemma isNaN_Number_1: "\<not> isNaN_Number ''1''"
  by (simp add: isNaN_Number_def trimString_def isStrWhiteSpaceChar_def nonDecimalIntegerLiteral_def
      strDecimalLiteral_def strUnsignedDecimalLiteral_def isDecimalDigit_def exponentPartOpt_def Let_def)

lemma encodeURIComponent_K1: "encodeURIComponent ''K1'' = ''K1''"
  by (simp add: encodeURIComponent_def encodeUnit_def uriUnreserved_def Let_def)

lemma prepareUrl_example: "prepareUrl ''1'' ''K1'' = Inr exampleUrl"
  by (simp add: prepareUrl_def getProperty_def SUBGRAPH_URLS_def isNaN_Number_1 encodeURIComponent_K1 exampleUrl_def)

lemma getProperty_unsupported:
  assumes "chainId \<notin> {''1'', ''137'', ''10'', ''42220''}"
  shows "getProperty SUBGRAPH_URLS chainId = Undefined
       \<or> (getProperty SUBGRAPH_URLS chainId = Inherited \<and> chainId \<in> set objectPrototypeKeys)"
  using assms by (simp add: getProperty_def SUBGRAPH_URLS_def)

text \<open>
  Claim C5. For every chain identifier other than \<^verbatim>\<open>"1"\<close>, \<^verbatim>\<open>"137"\<close>,
  \<^verbatim>\<open>"10"\<close> and \<^verbatim>\<open>"42220"\<close>, numeric or not, and every API key,
  \<^verbatim>\<open>prepareUrl\<close> throws the error whose message names the identifier and lists
  the supported ones.
\<close>

theorem C5_unsupported_chain:
  assumes "chainId \<notin> {''1'', ''137'', ''10'', ''42220''}"
  shows "prepareUrl chainId apiKey =
           Inl (newError (''Unsupported or invalid Chain ID provided: '' @ chainId
                  @ ''. Only the following values are accepted: 1, 10, 137, 42220''))"
proof -
  have "getProperty SUBGRAPH_URLS chainId = Undefined \<or> isNaN_Number chainId"
    using getProperty_unsupported [OF assms] isNaN_Number_objectPrototypeKeys
    by (auto simp: list_all_iff)
  then show ?thesis
    unfolding prepareUrl_def Let_def supportedChainIds by simp
qed

theorem C5_unsupported_chain_witness:
  "prepareUrl ''56'' ''K1'' =
     Inl (ErrorObject ''Error'' ''Unsupported or invalid Chain ID provided: 56. Only the following values are accepted: 1, 10, 137, 42220'')
   \<and> prepareUrl ''constructor'' [] =
     Inl (ErrorObject ''Error'' ''Unsupported or invalid Chain ID provided: constructor. Only the following values are accepted: 1, 10, 137, 42220'')"
  using C5_unsupported_chain [of "''56''" "''K1''"] C5_unsupported_chain [of "''constructor''" "[]"]
  by (simp add: newError_def)

section \<open>Properties of fetchData and returnTags\<close>

lemma parseInt_toString_plain:
  "\<bar>n\<bar> < 10 ^ 21 \<Longrightarrow> parseInt_toString n = n"
  by (simp add: parseInt_toString_def)

text \<open>
  Beyond the plain range: \<^verbatim>\<open>1e+21\<close> reads as 1, the number nearest to
  \<open>10\<^sup>2\<^sup>3\<close> prints as \<^verbatim>\<open>1e+23\<close> and reads as 1, and \<^verbatim>\<open>-2.5e+21\<close> reads as -2.
\<close>

lemma parseInt_toString_1e21: "parseInt_toString 1000000000000000000000 = 1"
proof -
  have "bitLength 1000000000000000000000 = 70"
    by (simp add: bitLength.simps)
  moreover have "decimalLength 1000000000000000000000 = 22"
    by (simp add: decimalLength.simps)
  ultimately show ?thesis
    by (simp add: parseInt_toString_def exponentLeadingDigit_def)
qed

lemma parseInt_toString_1e23: "parseInt_toString 99999999999999991611392 = 1"
proof -
  have "bitLength 99999999999999991611392 = 77"
    by (simp add: bitLength.simps)
  moreover have "decimalLength 99999999999999991611392 = 23"
    by (simp add: decimalLength.simps)
  ultimately show ?thesis
    by (simp add: parseInt_toString_def exponentLeadingDigit_def)
qed

lemma parseInt_toString_negative: "parseInt_toString (- 2500000000000000000000) = - 2"
proof -
  have "bitLength 2500000000000000000000 = 72"
    by (simp add: bitLength.simps)
  moreover have "decimalLength 2500000000000000000000 = 22"
    by (simp add: decimalLength.simps)
  ultimately show ?thesis
    by (simp add: parseInt_toString_def exponentLeadingDigit_def)
qed

lemma sent_fetchData:
  "sent (fetchData url t reply) = \<lparr> subgraphUrl = url, variables_lastTimestamp = t \<rparr>"
  by (simp add: fetchData_def Let_def split: fetch_result.splits json_result.splits option.splits)

lemma result_fetchData_cursor:
  "result (fetchData url t reply) = result (fetchData url' t' reply)"
  by (simp add: fetchData_def Let_def split: fetch_result.splits json_result.splits option.splits)

lemma logs_fetchData_Inr:
  "result (fetchData url t reply) = Inr ps \<Longrightarrow> logs (fetchData url t reply) = []"
  by (simp add: fetchData_def Let_def split: fetch_result.splits json_result.splits option.splits if_splits)

lemma fetchData_not_ok:
  "\<not> ok response \<Longrightarrow>
     fetchData url t (FetchResolves response) =
       \<lparr> sent = \<lparr> subgraphUrl = url, variables_lastTimestamp = t \<rparr>,
         result = Inl (newError (''HTTP error: '' @ showNat (status response))),
         logs = [] \<rparr>"
  by (simp add: fetchData_def)

lemma fetchData_errors:
  "ok response \<Longrightarrow> json response = JsonValue res \<Longrightarrow> errors res = Some es \<Longrightarrow>
     fetchData url t (FetchResolves response) =
       \<lparr> sent = \<lparr> subgraphUrl = url, variables_lastTimestamp = t \<rparr>,
         result = Inl (newError ''GraphQL errors occurred: see logs for details.''),
         logs = map (\<lambda>error. ConsoleError (''GraphQL error: '' @ message error)) es \<rparr>"
  by (simp add: fetchData_def)

lemma fetchData_no_data:
  "ok response \<Longrightarrow> json response = JsonValue res \<Longrightarrow> errors res = None \<Longrightarrow>
   data res = None \<or> (\<exists>d. data res = Some d \<and> pools d = None) \<Longrightarrow>
     fetchData url t (FetchResolves response) =
       \<lparr> sent = \<lparr> subgraphUrl = url, variables_lastTimestamp = t \<rparr>,
         result = Inl (newError ''No pools data found.''),
         logs = [] \<rparr>"
  by (auto simp: fetchData_def)

lemma returnTagsLoop_more:
  assumes "result (fetchData url (lastTimestamp st) reply) = Inr ps" and "length ps = 1000"
  shows "returnTagsLoop chainId url (reply # replies) st =
           returnTagsLoop chainId url replies
             \<lparr> lastTimestamp = parseInt_toString (createdAtTimestamp (last ps)),
               allTags = allTags st @ fst (transformPoolsToTags chainId ps),
               requests = requests st
                 @ [\<lparr> subgraphUrl = url, variables_lastTimestamp = lastTimestamp st \<rparr>],
               logged = logged st @ snd (transformPoolsToTags chainId ps) \<rparr>"
  using assms logs_fetchData_Inr [OF assms(1)]
  by (cases st) (simp add: returnTagsLoop.simps Let_def sent_fetchData)

lemma returnTagsLoop_last:
  assumes "result (fetchData url (lastTimestamp st) reply) = Inr ps" and "length ps \<noteq> 1000"
  shows "returnTagsLoop chainId url (reply # replies) st =
           (Some (Resolved (allTags st @ fst (transformPoolsToTags chainId ps))),
            \<lparr> lastTimestamp = lastTimestamp st,
              allTags = allTags st @ fst (transformPoolsToTags chainId ps),
              requests = requests st
                @ [\<lparr> subgraphUrl = url, variables_lastTimestamp = lastTimestamp st \<rparr>],
              logged = logged st @ snd (transformPoolsToTags chainId ps) \<rparr>)"
  using assms logs_fetchData_Inr [OF assms(1)]
  by (cases st) (simp add: returnTagsLoop.simps Let_def sent_fetchData)

lemma returnTagsLoop_error:
  assumes "result (fetchData url (lastTimestamp st) reply) = Inl (ErrorObject n m)"
  shows "returnTagsLoop chainId url (reply # replies) st =
           (Some (Rejected (newError (''Failed fetching data: '' @ errorToString (ErrorObject n m)))),
            \<lparr> lastTimestamp = lastTimestamp st,
              allTags = allTags st,
              requests = requests st
                @ [\<lparr> subgraphUrl = url, variables_lastTimestamp = lastTimestamp st \<rparr>],
              logged = logged st @ logs (fetchData url (lastTimestamp st) reply)
                @ [ConsoleError (''An error occurred: '' @ m)] \<rparr>)"
  using assms
  by (cases st) (simp add: returnTagsLoop.simps Let_def sent_fetchData)

lemma returnTagsLoop_append:
  "returnTagsLoop chainId url (rs @ rs') st =
     (case returnTagsLoop chainId url rs st of
        (None, st') \<Rightarrow> returnTagsLoop chainId url rs' st'
      | (Some out, st') \<Rightarrow> (Some out, st'))"
proof (induction rs arbitrary: st)
  case Nil
  then show ?case by (simp add: returnTagsLoop.simps)
next
  case (Cons r rs)
  show ?case
    by (simp add: returnTagsLoop.simps Let_def Cons.IH split: sum.splits)
qed

lemma returnTags_loop:
  "prepareUrl chainId apiKey = Inr url \<Longrightarrow>
     returnTags chainId apiKey replies = returnTagsLoop chainId url replies initialState"
  by (simp add: returnTags_def)

lemma returnTagsLoop_resolved:
  assumes "returnTagsLoop chainId url rs st = (Some (Resolved tags), st')"
  shows "\<exists>reqs pss.
           requests st' = requests st @ reqs
         \<and> list_all2 (\<lambda>(req, reply) ps.
               result (fetchData (subgraphUrl req) (variables_lastTimestamp req) reply) = Inr ps)
             (zip reqs rs) pss
         \<and> tags = allTags st @ concat (map (\<lambda>ps. fst (transformPoolsToTags chainId ps)) pss)"
  using assms
proof (induction rs arbitrary: st)
  case Nil
  then show ?case by (simp add: returnTagsLoop.simps)
next
  case (Cons r rs)
  let ?req = "\<lparr> subgraphUrl = url, variables_lastTimestamp = lastTimestamp st \<rparr>"
  show ?case
  proof (cases "result (fetchData url (lastTimestamp st) r)")
    case (Inl e)
    with Cons.prems show ?thesis
      by (simp add: returnTagsLoop.simps Let_def split: if_splits)
  next
    case (Inr ps)
    show ?thesis
    proof (cases "length ps = 1000")
      case True
      define st2 where "st2 =
        \<lparr> lastTimestamp = parseInt_toString (createdAtTimestamp (last ps)),
          allTags = allTags st @ fst (transformPoolsToTags chainId ps),
          requests = requests st @ [?req],
          logged = logged st @ snd (transformPoolsToTags chainId ps) \<rparr>"
      from Cons.prems returnTagsLoop_more [OF Inr True]
      have "returnTagsLoop chainId url rs st2 = (Some (Resolved tags), st')"
        by (simp add: st2_def)
      from Cons.IH [OF this] obtain reqs pss where
        a: "requests st' = requests st2 @ reqs"
        and b: "list_all2 (\<lambda>(req, reply) ps.
               result (fetchData (subgraphUrl req) (variables_lastTimestamp req) reply) = Inr ps)
             (zip reqs rs) pss"
        and c: "tags = allTags st2 @ concat (map (\<lambda>ps. fst (transformPoolsToTags chainId ps)) pss)"
        by blast
      have "requests st' = requests st @ (?req # reqs)"
        using a by (simp add: st2_def)
      moreover have "list_all2 (\<lambda>(req, reply) ps.
               result (fetchData (subgraphUrl req) (variables_lastTimestamp req) reply) = Inr ps)
             (zip (?req # reqs) (r # rs)) (ps # pss)"
        using b Inr by simp
      moreover have "tags = allTags st
          @ concat (map (\<lambda>ps. fst (transformPoolsToTags chainId ps)) (ps # pss))"
        using c by (simp add: st2_def)
      ultimately show ?thesis by blast
    next
      case False
      from Cons.prems returnTagsLoop_last [OF Inr False]
      have t: "tags = allTags st @ fst (transformPoolsToTags chainId ps)"
        and s: "requests st' = requests st @ [?req]"
        by auto
      have "list_all2 (\<lambda>(req, reply) ps.
               result (fetchData (subgraphUrl req) (variables_lastTimestamp req) reply) = Inr ps)
             (zip [?req] (r # rs)) [ps]"
        using Inr by simp
      moreover have "tags = allTags st
          @ concat (map (\<lambda>ps. fst (transformPoolsToTags chainId ps)) [ps])"
        using t by simp
      ultimately show ?thesis using s by blast
    qed
  qed
qed

lemma result_pageReply: "result (fetchData url t (pageReply ps)) = Inr ps"
  by (simp add: fetchData_def pageReply_def)

lemma poolRejected_numberedPool: "\<not> poolRejected (numberedPool i)"
  by (simp add: poolRejected_def tokenInvalid_def numberedPool_def usdc_def weth_def)

lemma length_transform_numbered:
  "length (fst (transformPoolsToTags chainId (map (\<lambda>i. numberedPool (f i)) xs))) = length xs"
  by (simp add: fst_transformPoolsToTags poolRejected_numberedPool)

lemma length_transform_pages:
  "length (fst (transformPoolsToTags chainId page1)) = 1000"
  "length (fst (transformPoolsToTags chainId page2)) = 1000"
  "length (fst (transformPoolsToTags chainId page3)) = 400"
  using length_transform_numbered [of chainId "\<lambda>i. i" "[0..<1000]"]
    length_transform_numbered [of chainId "\<lambda>i. 1000 + i" "[0..<1000]"]
    length_transform_numbered [of chainId "\<lambda>i. 2000 + i" "[0..<400]"]
  by (simp_all add: page1_def page2_def page3_def)

lemma last_pages:
  "createdAtTimestamp (last page1) = 1620000999"
  "createdAtTimestamp (last page2) = 1620001999"
proof -
  have "last page1 = numberedPool 999"
    unfolding page1_def by (subst last_map) simp_all
  then show "createdAtTimestamp (last page1) = 1620000999"
    by (simp add: numberedPool_def)
  have "last page2 = numberedPool 1999"
    unfolding page2_def by (subst last_map) simp_all
  then show "createdAtTimestamp (last page2) = 1620001999"
    by (simp add: numberedPool_def)
qed

lemma length_pages: "length page1 = 1000" "length page2 = 1000" "length page3 = 400"
  by (simp_all add: page1_def page2_def page3_def)

text \<open>
  Claim C1. In a run on a supported chain where the first three replies are pages of
  1000, 1000 and 400 pools, the timestamps of the last pools of the first two pages being
  below \<open>10\<^sup>2\<^sup>1\<close> in magnitude (as unix seconds are), exactly three requests are issued; the first carries the
  cursor 0, the second the \<^verbatim>\<open>createdAtTimestamp\<close> of the last pool of the first page,
  the third that of the last pool of the second page; the promise resolves after the
  third page with the tags of the three pages, whatever replies would follow. From any
  state of the loop, a page of fewer than 1000 pools ends the pagination after its request.
\<close>

theorem C1_three_pages:
  assumes "prepareUrl chainId apiKey = Inr url"
    and "\<And>t. result (fetchData url t r1) = Inr p1" and "length p1 = 1000"
    and "\<And>t. result (fetchData url t r2) = Inr p2" and "length p2 = 1000"
    and "\<And>t. result (fetchData url t r3) = Inr p3" and "length p3 = 400"
    and "\<bar>createdAtTimestamp (last p1)\<bar> < 10 ^ 21"
    and "\<bar>createdAtTimestamp (last p2)\<bar> < 10 ^ 21"
  shows "fst (returnTags chainId apiKey (r1 # r2 # r3 # rest)) =
           Some (Resolved (fst (transformPoolsToTags chainId p1)
                         @ fst (transformPoolsToTags chainId p2)
                         @ fst (transformPoolsToTags chainId p3)))
       \<and> requests (snd (returnTags chainId apiKey (r1 # r2 # r3 # rest))) =
           [\<lparr> subgraphUrl = url, variables_lastTimestamp = 0 \<rparr>,
            \<lparr> subgraphUrl = url, variables_lastTimestamp = createdAtTimestamp (last p1) \<rparr>,
            \<lparr> subgraphUrl = url, variables_lastTimestamp = createdAtTimestamp (last p2) \<rparr>]
       \<and> (result (fetchData url (lastTimestamp st) r) = Inr ps \<and> length ps < 1000 \<longrightarrow>
            fst (returnTagsLoop chainId url (r # others) st) =
              Some (Resolved (allTags st @ fst (transformPoolsToTags chainId ps)))
          \<and> requests (snd (returnTagsLoop chainId url (r # others) st)) =
              requests st @ [\<lparr> subgraphUrl = url, variables_lastTimestamp = lastTimestamp st \<rparr>])"
proof -
  have short: "fst (returnTagsLoop chainId url (r # others) st) =
              Some (Resolved (allTags st @ fst (transformPoolsToTags chainId ps)))
          \<and> requests (snd (returnTagsLoop chainId url (r # others) st)) =
              requests st @ [\<lparr> subgraphUrl = url, variables_lastTimestamp = lastTimestamp st \<rparr>]"
    if "result (fetchData url (lastTimestamp st) r) = Inr ps" and "length ps < 1000"
  proof -
    from that(2) have "length ps \<noteq> 1000" by simp
    from returnTagsLoop_last [OF that(1) this] show ?thesis by simp
  qed
  define s1 where "s1 =
    \<lparr> lastTimestamp = createdAtTimestamp (last p1),
      allTags = fst (transformPoolsToTags chainId p1),
      requests = [\<lparr> subgraphUrl = url, variables_lastTimestamp = 0 \<rparr>],
      logged = snd (transformPoolsToTags chainId p1) \<rparr>"
  define s2 where "s2 =
    \<lparr> lastTimestamp = createdAtTimestamp (last p2),
      allTags = allTags s1 @ fst (transformPoolsToTags chainId p2),
      requests = requests s1
        @ [\<lparr> subgraphUrl = url, variables_lastTimestamp = lastTimestamp s1 \<rparr>],
      logged = logged s1 @ snd (transformPoolsToTags chainId p2) \<rparr>"
  have "returnTagsLoop chainId url (r1 # r2 # r3 # rest) initialState =
          returnTagsLoop chainId url (r2 # r3 # rest) s1"
    using returnTagsLoop_more [of url initialState r1 p1 chainId] assms(2,3)
    by (simp add: initialState_def s1_def parseInt_toString_plain [OF assms(8)])
  also have "\<dots> = returnTagsLoop chainId url (r3 # rest) s2"
    using returnTagsLoop_more [of url s1 r2 p2 chainId] assms(4,5)
    by (simp add: s2_def parseInt_toString_plain [OF assms(9)])
  finally have run: "returnTags chainId apiKey (r1 # r2 # r3 # rest) =
      returnTagsLoop chainId url (r3 # rest) s2"
    by (simp add: returnTags_loop [OF assms(1)])
  have three: "length p3 \<noteq> 1000"
    using assms(7) by simp
  have "returnTags chainId apiKey (r1 # r2 # r3 # rest) =
     (Some (Resolved (allTags s2 @ fst (transformPoolsToTags chainId p3))),
      \<lparr> lastTimestamp = lastTimestamp s2,
        allTags = allTags s2 @ fst (transformPoolsToTags chainId p3),
        requests = requests s2
          @ [\<lparr> subgraphUrl = url, variables_lastTimestamp = lastTimestamp s2 \<rparr>],
        logged = logged s2 @ snd (transformPoolsToTags chainId p3) \<rparr>)"
    unfolding run by (rule returnTagsLoop_last [OF assms(6) three])
  then have "fst (returnTags chainId apiKey (r1 # r2 # r3 # rest)) =
           Some (Resolved (fst (transformPoolsToTags chainId p1)
                         @ fst (transformPoolsToTags chainId p2)
                         @ fst (transformPoolsToTags chainId p3)))
       \<and> requests (snd (returnTags chainId apiKey (r1 # r2 # r3 # rest))) =
           [\<lparr> subgraphUrl = url, variables_lastTimestamp = 0 \<rparr>,
            \<lparr> subgraphUrl = url, variables_lastTimestamp = createdAtTimestamp (last p1) \<rparr>,
            \<lparr> subgraphUrl = url, variables_lastTimestamp = createdAtTimestamp (last p2) \<rparr>]"
    by (simp add: s1_def s2_def)
  with short show ?thesis by blast
qed

theorem C1_three_pages_witness:
  "length page1 = 1000 \<and> length page2 = 1000 \<and> length page3 = 400
   \<and> requests (snd (returnTags ''1'' ''K1'' [pageReply page1, pageReply page2, pageReply page3])) =
       [\<lparr> subgraphUrl = exampleUrl, variables_lastTimestamp = 0 \<rparr>,
        \<lparr> subgraphUrl = exampleUrl, variables_lastTimestamp = 1620000999 \<rparr>,
        \<lparr> subgraphUrl = exampleUrl, variables_lastTimestamp = 1620001999 \<rparr>]
   \<and> fst (returnTags ''1'' ''K1'' [pageReply page1, pageReply page2, pageReply page3]) =
       Some (Resolved (fst (transformPoolsToTags ''1'' page1)
                     @ fst (transformPoolsToTags ''1'' page2)
                     @ fst (transformPoolsToTags ''1'' page3)))
   \<and> length (fst (transformPoolsToTags ''1'' page1)
             @ fst (transformPoolsToTags ''1'' page2)
             @ fst (transformPoolsToTags ''1'' page3)) = 2400"
proof -
  have b1: "\<bar>createdAtTimestamp (last page1)\<bar> < 10 ^ 21"
    by (simp add: last_pages)
  have b2: "\<bar>createdAtTimestamp (last page2)\<bar> < 10 ^ 21"
    by (simp add: last_pages)
  from C1_three_pages [OF prepareUrl_example result_pageReply length_pages(1)
      result_pageReply length_pages(2) result_pageReply length_pages(3) b1 b2,
      where rest = "[]"]
    length_pages last_pages length_transform_pages [of "''1''"]
  show ?thesis by simp
qed

lemma showNat_examples: "showNat 500 = ''500''" "showNat 502 = ''502''" "showNat 503 = ''503''"
  by (simp_all add: showNat.simps)

lemma fetchData_failure:
  assumes "\<not> ok response
         \<or> (\<exists>res. json response = JsonValue res
               \<and> (errors res \<noteq> None \<or> data res = None \<or> (\<exists>d. data res = Some d \<and> pools d = None)))"
  shows "\<exists>m. m \<noteq> [] \<and> result (fetchData url t (FetchResolves response)) = Inl (newError m)"
proof (cases "ok response")
  case False
  have "result (fetchData url t (FetchResolves response))
          = Inl (newError (''HTTP error: '' @ showNat (status response)))"
    by (simp add: fetchData_not_ok [OF False])
  moreover have "''HTTP error: '' @ showNat (status response) \<noteq> []" by simp
  ultimately show ?thesis by blast
next
  case True
  with assms obtain res where j: "json response = JsonValue res"
    and k: "errors res \<noteq> None \<or> data res = None \<or> (\<exists>d. data res = Some d \<and> pools d = None)"
    by blast
  show ?thesis
  proof (cases "errors res")
    case (Some es)
    have "result (fetchData url t (FetchResolves response))
            = Inl (newError ''GraphQL errors occurred: see logs for details.'')"
      by (simp add: fetchData_errors [OF True j Some])
    moreover have "''GraphQL errors occurred: see logs for details.'' \<noteq> []" by simp
    ultimately show ?thesis by blast
  next
    case None
    with k have "data res = None \<or> (\<exists>d. data res = Some d \<and> pools d = None)" by simp
    then have "result (fetchData url t (FetchResolves response))
            = Inl (newError ''No pools data found.'')"
      by (simp add: fetchData_no_data [OF True j None])
    moreover have "''No pools data found.'' \<noteq> []" by simp
    ultimately show ?thesis by blast
  qed
qed

lemma returnTagsLoop_rejects:
  assumes "result (fetchData url (lastTimestamp st) reply) = Inl (newError m)" and "m \<noteq> []"
  shows "fst (returnTagsLoop chainId url (reply # replies) st) =
           Some (Rejected (newError (''Failed fetching data: Error: '' @ m)))"
    and "logged (snd (returnTagsLoop chainId url (reply # replies) st)) =
           logged st @ logs (fetchData url (lastTimestamp st) reply)
             @ [ConsoleError (''An error occurred: '' @ m)]"
    and "allTags (snd (returnTagsLoop chainId url (reply # replies) st)) = allTags st"
  using returnTagsLoop_error [of url st reply "''Error''" m chainId replies] assms
  by (simp_all add: newError_def)

lemma returnTags_resolved:
  assumes "fst (returnTags chainId apiKey replies) = Some (Resolved tags)"
  shows "\<exists>pss. list_all2 (\<lambda>(req, reply) ps.
               result (fetchData (subgraphUrl req) (variables_lastTimestamp req) reply) = Inr ps)
             (zip (requests (snd (returnTags chainId apiKey replies))) replies) pss
         \<and> tags = concat (map (\<lambda>ps. fst (transformPoolsToTags chainId ps)) pss)"
proof (cases "prepareUrl chainId apiKey")
  case (Inl e)
  with assms show ?thesis by (simp add: returnTags_def)
next
  case (Inr url)
  obtain st' where r: "returnTagsLoop chainId url replies initialState = (Some (Resolved tags), st')"
    using assms returnTags_loop [OF Inr, of replies] by (cases "returnTagsLoop chainId url replies initialState") simp
  from returnTagsLoop_resolved [OF r] obtain reqs pss where
    a: "requests st' = requests initialState @ reqs"
    and b: "list_all2 (\<lambda>(req, reply) ps.
               result (fetchData (subgraphUrl req) (variables_lastTimestamp req) reply) = Inr ps)
             (zip reqs replies) pss"
    and c: "tags = allTags initialState @ concat (map (\<lambda>ps. fst (transformPoolsToTags chainId ps)) pss)"
    by blast
  have "requests st' = reqs"
    using a by (simp add: initialState_def)
  then have "requests (snd (returnTags chainId apiKey replies)) = reqs"
    by (simp add: returnTags_loop [OF Inr] r)
  moreover have "tags = concat (map (\<lambda>ps. fst (transformPoolsToTags chainId ps)) pss)"
    using c by (simp add: initialState_def)
  ultimately show ?thesis
    using b by blast
qed

lemma returnTagsLoop_settles:
  assumes "r \<in> set replies"
    and "\<And>t ps. result (fetchData url t r) = Inr ps \<Longrightarrow> length ps \<noteq> 1000"
  shows "fst (returnTagsLoop chainId url replies st) \<noteq> None"
  using assms(1)
proof (induction replies arbitrary: st)
  case Nil
  then show ?case by simp
next
  case (Cons a rs)
  show ?case
  proof (cases "result (fetchData url (lastTimestamp st) a)")
    case (Inl e)
    then show ?thesis
      by (simp add: returnTagsLoop.simps Let_def)
  next
    case (Inr ps)
    show ?thesis
    proof (cases "length ps = 1000")
      case True
      with Inr assms(2) have "a \<noteq> r" by blast
      with Cons.prems have "r \<in> set rs" by simp
      from Cons.IH [OF this] show ?thesis
        by (simp add: returnTagsLoop_more [OF Inr True])
    next
      case False
      show ?thesis
        by (simp add: returnTagsLoop_last [OF Inr False])
    qed
  qed
qed

text \<open>
  Claim C2. On a supported chain, when the earlier pages were fetched and the loop asks
  for another one (whatever tags it has accumulated), a reply that fails with an HTTP
  error, with GraphQL errors or with missing data makes \<^verbatim>\<open>fetchData\<close> throw an
  error with some message \<open>m\<close>, and the promise rejects with the error whose message is
  \<^verbatim>\<open>Failed fetching data: Error: \<close> followed by \<open>m\<close>: a rejection carries no tags.
  And whenever the promise resolves, its tag list is the concatenation, in order, of the
  transforms of the pages returned to all the requests that were issued. The promise
  settles, one way or the other, as soon as a reply is not a page of exactly 1000 pools.
\<close>

theorem C2_no_partial_result:
  assumes "prepareUrl chainId apiKey = Inr url"
    and "returnTagsLoop chainId url pages initialState = (None, st)"
    and "\<not> ok response
         \<or> (\<exists>res. json response = JsonValue res
               \<and> (errors res \<noteq> None \<or> data res = None \<or> (\<exists>d. data res = Some d \<and> pools d = None)))"
  shows "(\<exists>m. result (fetchData url (lastTimestamp st) (FetchResolves response)) = Inl (newError m)
            \<and> fst (returnTags chainId apiKey (pages @ FetchResolves response # rest)) =
                Some (Rejected (newError (''Failed fetching data: Error: '' @ m))))
       \<and> (fst (returnTags chainId apiKey replies) = Some (Resolved tags) \<longrightarrow>
            (\<exists>pss. list_all2 (\<lambda>(req, reply) ps.
                      result (fetchData (subgraphUrl req) (variables_lastTimestamp req) reply) = Inr ps)
                    (zip (requests (snd (returnTags chainId apiKey replies))) replies) pss
                \<and> tags = concat (map (\<lambda>ps. fst (transformPoolsToTags chainId ps)) pss)))
       \<and> (r \<in> set replies
            \<and> (\<forall>t ps. result (fetchData url t r) = Inr ps \<longrightarrow> length ps \<noteq> 1000) \<longrightarrow>
            (\<exists>out. fst (returnTags chainId apiKey replies) = Some out))"
proof -
  from fetchData_failure [OF assms(3), of url "lastTimestamp st"]
  obtain m where m: "m \<noteq> []"
    and f: "result (fetchData url (lastTimestamp st) (FetchResolves response)) = Inl (newError m)"
    by blast
  have "returnTags chainId apiKey (pages @ FetchResolves response # rest) =
          returnTagsLoop chainId url (FetchResolves response # rest) st"
    by (simp add: returnTags_loop [OF assms(1)] returnTagsLoop_append assms(2))
  with returnTagsLoop_rejects(1) [OF f m, of chainId rest]
  have a: "fst (returnTags chainId apiKey (pages @ FetchResolves response # rest)) =
          Some (Rejected (newError (''Failed fetching data: Error: '' @ m)))"
    by simp
  have c: "\<exists>out. fst (returnTags chainId apiKey replies) = Some out"
    if "r \<in> set replies"
      and "\<forall>t ps. result (fetchData url t r) = Inr ps \<longrightarrow> length ps \<noteq> 1000"
  proof -
    have "fst (returnTagsLoop chainId url replies initialState) \<noteq> None"
      using that(2) by (intro returnTagsLoop_settles [OF that(1)]) blast
    then show ?thesis
      by (simp add: returnTags_loop [OF assms(1)])
  qed
  from a f c returnTags_resolved [of chainId apiKey replies tags] show ?thesis
    by blast
qed

lemma returnTagsLoop_page1:
  "returnTagsLoop ''1'' exampleUrl [pageReply page1] initialState = (None, afterPage1)"
  using returnTagsLoop_more [of exampleUrl initialState "pageReply page1" page1 "''1''" "[]"]
  by (simp add: result_pageReply length_pages last_pages initialState_def afterPage1_def
      returnTagsLoop.simps parseInt_toString_def)

lemma returnTags_single_page:
  "returnTags ''1'' ''K1'' [pageReply [usdcWethPool]] =
     (Some (Resolved (fst (transformPoolsToTags ''1'' [usdcWethPool]))),
      \<lparr> lastTimestamp = 0,
        allTags = fst (transformPoolsToTags ''1'' [usdcWethPool]),
        requests = [\<lparr> subgraphUrl = exampleUrl, variables_lastTimestamp = 0 \<rparr>],
        logged = snd (transformPoolsToTags ''1'' [usdcWethPool]) \<rparr>)"
  using returnTagsLoop_last [of exampleUrl initialState "pageReply [usdcWethPool]" "[usdcWethPool]" "''1''" "[]"]
  by (simp add: returnTags_loop [OF prepareUrl_example] result_pageReply initialState_def)

theorem C2_no_partial_result_witness:
  "returnTagsLoop ''1'' exampleUrl [pageReply page1] initialState = (None, afterPage1)
   \<and> length (allTags afterPage1) = 1000
   \<and> fst (returnTags ''1'' ''K1'' ([pageReply page1] @ httpErrorReply # [pageReply page3])) =
       Some (Rejected (ErrorObject ''Error'' ''Failed fetching data: Error: HTTP error: 503''))
   \<and> fst (returnTags ''1'' ''K1'' [pageReply [usdcWethPool]]) =
       Some (Resolved (fst (transformPoolsToTags ''1'' [usdcWethPool])))
   \<and> (\<exists>pss. list_all2 (\<lambda>(req, reply) ps.
                 result (fetchData (subgraphUrl req) (variables_lastTimestamp req) reply) = Inr ps)
               (zip (requests (snd (returnTags ''1'' ''K1'' [pageReply [usdcWethPool]])))
                  [pageReply [usdcWethPool]]) pss
           \<and> fst (transformPoolsToTags ''1'' [usdcWethPool]) =
               concat (map (\<lambda>ps. fst (transformPoolsToTags ''1'' ps)) pss))
   \<and> pageReply [usdcWethPool] \<in> set [pageReply [usdcWethPool]]
   \<and> (\<exists>out. fst (returnTags ''1'' ''K1'' [pageReply [usdcWethPool]]) = Some out)"
proof -
  have h: "\<not> ok \<lparr> ok = False, status = 503, json = JsonValue \<lparr> data = None, errors = None \<rparr> \<rparr>
         \<or> (\<exists>res. json \<lparr> ok = False, status = 503, json = JsonValue \<lparr> data = None, errors = None \<rparr> \<rparr> = JsonValue res
               \<and> (errors res \<noteq> None \<or> data res = None \<or> (\<exists>d. data res = Some d \<and> pools d = None)))"
    by simp
  have one: "fst (returnTags ''1'' ''K1'' [pageReply [usdcWethPool]]) =
       Some (Resolved (fst (transformPoolsToTags ''1'' [usdcWethPool])))"
    by (simp add: returnTags_single_page)
  note inst = C2_no_partial_result [OF prepareUrl_example returnTagsLoop_page1 h,
      where rest = "[pageReply page3]" and replies = "[pageReply [usdcWethPool]]"
        and tags = "fst (transformPoolsToTags ''1'' [usdcWethPool])"
        and r = "pageReply [usdcWethPool]"]
  have short: "\<forall>t ps. result (fetchData exampleUrl t (pageReply [usdcWethPool])) = Inr ps
                 \<longrightarrow> length ps \<noteq> 1000"
    by (simp add: result_pageReply)
  have settles: "\<exists>out. fst (returnTags ''1'' ''K1'' [pageReply [usdcWethPool]]) = Some out"
    using inst short by simp
  have r: "result (fetchData exampleUrl (lastTimestamp afterPage1) httpErrorReply)
             = Inl (newError ''HTTP error: 503'')"
    by (simp add: fetchData_def httpErrorReply_def showNat_examples)
  from inst obtain m where
    "result (fetchData exampleUrl (lastTimestamp afterPage1) httpErrorReply) = Inl (newError m)"
    and rej: "fst (returnTags ''1'' ''K1'' ([pageReply page1] @ httpErrorReply # [pageReply page3])) =
                Some (Rejected (newError (''Failed fetching data: Error: '' @ m)))"
    unfolding httpErrorReply_def by blast
  with r have "m = ''HTTP error: 503''"
    by (simp add: newError_def)
  with rej have "fst (returnTags ''1'' ''K1'' ([pageReply page1] @ httpErrorReply # [pageReply page3])) =
       Some (Rejected (ErrorObject ''Error'' ''Failed fetching data: Error: HTTP error: 503''))"
    by (simp add: newError_def)
  moreover have "length (allTags afterPage1) = 1000"
    by (simp add: afterPage1_def length_transform_pages)
  ultimately show ?thesis
    using inst one returnTagsLoop_page1 settles by simp
qed

text \<open>
  Claim C7, as stated, fails: a response with status 500 whose body holds a non-empty
  \<^verbatim>\<open>errors\<close> array makes \<^verbatim>\<open>fetchData\<close> throw the HTTP error, and no GraphQL
  error message is logged.
\<close>

theorem C7_graphql_errors_counterexample:
  "result (fetchData ''u'' 0
     (FetchResolves \<lparr> ok = False, status = 500,
        json = JsonValue \<lparr> data = None, errors = Some [\<lparr> message = ''bad query'' \<rparr>] \<rparr> \<rparr>))
     = Inl (newError ''HTTP error: 500'')
   \<and> result (fetchData ''u'' 0
     (FetchResolves \<lparr> ok = False, status = 500,
        json = JsonValue \<lparr> data = None, errors = Some [\<lparr> message = ''bad query'' \<rparr>] \<rparr> \<rparr>))
     \<noteq> Inl (newError ''GraphQL errors occurred: see logs for details.'')
   \<and> logs (fetchData ''u'' 0
     (FetchResolves \<lparr> ok = False, status = 500,
        json = JsonValue \<lparr> data = None, errors = Some [\<lparr> message = ''bad query'' \<rparr>] \<rparr> \<rparr>))
     = []"
  by (simp add: fetchData_def showNat_examples newError_def)

text \<open>
  Claim C7, amended. For every response with a success status (\<^verbatim>\<open>response.ok\<close>) whose
  body holds a non-empty \<^verbatim>\<open>errors\<close> array, \<^verbatim>\<open>fetchData\<close> logs
  \<^verbatim>\<open>GraphQL error: \<close> and the message for each entry, in order, and throws the error
  \<^verbatim>\<open>GraphQL errors occurred: see logs for details.\<close>; so the loop, in any state, ends
  with the promise rejected with that message wrapped, after those lines and the line of
  the catch are logged, and so does \<^verbatim>\<open>returnTags\<close> on a supported chain.
\<close>

theorem C7_graphql_errors:
  assumes "ok response" and "json response = JsonValue res"
    and "errors res = Some es" and "es \<noteq> []"
  shows "result (fetchData url t (FetchResolves response))
           = Inl (newError ''GraphQL errors occurred: see logs for details.'')
       \<and> logs (fetchData url t (FetchResolves response))
           = map (\<lambda>e. ConsoleError (''GraphQL error: '' @ message e)) es
       \<and> fst (returnTagsLoop chainId url (FetchResolves response # rest) st)
           = Some (Rejected (newError
               ''Failed fetching data: Error: GraphQL errors occurred: see logs for details.''))
       \<and> logged (snd (returnTagsLoop chainId url (FetchResolves response # rest) st))
           = logged st @ map (\<lambda>e. ConsoleError (''GraphQL error: '' @ message e)) es
               @ [ConsoleError ''An error occurred: GraphQL errors occurred: see logs for details.'']
       \<and> (prepareUrl chainId apiKey = Inr url \<longrightarrow>
            fst (returnTags chainId apiKey (FetchResolves response # rest))
              = Some (Rejected (newError
                  ''Failed fetching data: Error: GraphQL errors occurred: see logs for details.'')))"
proof -
  note f = fetchData_errors [OF assms(1-3)]
  have r: "result (fetchData url (lastTimestamp st) (FetchResolves response))
             = Inl (newError ''GraphQL errors occurred: see logs for details.'')" for st :: run_state
    by (simp add: f)
  have ne: "''GraphQL errors occurred: see logs for details.'' \<noteq> []" by simp
  have a: "fst (returnTagsLoop chainId url (FetchResolves response # rest) st)
           = Some (Rejected (newError
               ''Failed fetching data: Error: GraphQL errors occurred: see logs for details.''))"
    for st :: run_state
    using returnTagsLoop_rejects(1) [OF r [of st] ne, where chainId = chainId and replies = rest] by simp
  have b: "logged (snd (returnTagsLoop chainId url (FetchResolves response # rest) st))
           = logged st @ map (\<lambda>e. ConsoleError (''GraphQL error: '' @ message e)) es
               @ [ConsoleError ''An error occurred: GraphQL errors occurred: see logs for details.'']"
    using returnTagsLoop_rejects(2) [OF r [of st] ne, where chainId = chainId and replies = rest] by (simp add: f)
  have c: "fst (returnTags chainId apiKey (FetchResolves response # rest))
              = Some (Rejected (newError
                  ''Failed fetching data: Error: GraphQL errors occurred: see logs for details.''))"
    if "prepareUrl chainId apiKey = Inr url"
    by (simp add: returnTags_loop [OF that] a)
  show ?thesis
    using a [of st] b c by (simp add: f)
qed

theorem C7_graphql_errors_witness:
  "fetchData exampleUrl 0 graphqlErrorsReply =
     \<lparr> sent = \<lparr> subgraphUrl = exampleUrl, variables_lastTimestamp = 0 \<rparr>,
       result = Inl (ErrorObject ''Error'' ''GraphQL errors occurred: see logs for details.''),
       logs = [ConsoleError ''GraphQL error: bad query'', ConsoleError ''GraphQL error: timeout''] \<rparr>
   \<and> fst (returnTags ''1'' ''K1'' [graphqlErrorsReply])
       = Some (Rejected (ErrorObject ''Error''
           ''Failed fetching data: Error: GraphQL errors occurred: see logs for details.''))
   \<and> logged (snd (returnTagsLoop ''1'' exampleUrl [graphqlErrorsReply] initialState))
       = [ConsoleError ''GraphQL error: bad query'', ConsoleError ''GraphQL error: timeout'',
          ConsoleError ''An error occurred: GraphQL errors occurred: see logs for details.'']"
proof -
  have s: "sent (fetchData exampleUrl 0 graphqlErrorsReply)
             = \<lparr> subgraphUrl = exampleUrl, variables_lastTimestamp = 0 \<rparr>"
    by (rule sent_fetchData)
  have e: "fetchData exampleUrl 0 graphqlErrorsReply =
     \<lparr> sent = sent (fetchData exampleUrl 0 graphqlErrorsReply),
       result = result (fetchData exampleUrl 0 graphqlErrorsReply),
       logs = logs (fetchData exampleUrl 0 graphqlErrorsReply) \<rparr>"
    by simp
  from C7_graphql_errors [where response = "\<lparr> ok = True, status = 200,
       json = JsonValue \<lparr> data = None,
         errors = Some [\<lparr> message = ''bad query'' \<rparr>, \<lparr> message = ''timeout'' \<rparr>] \<rparr> \<rparr>"
      and res = "\<lparr> data = None, errors = Some [\<lparr> message = ''bad query'' \<rparr>, \<lparr> message = ''timeout'' \<rparr>] \<rparr>"
      and es = "[\<lparr> message = ''bad query'' \<rparr>, \<lparr> message = ''timeout'' \<rparr>]"
      and url = exampleUrl and t = 0 and chainId = "''1''" and rest = "[]"
      and st = initialState and apiKey = "''K1''"]
    prepareUrl_example s
  show ?thesis
    by (subst e) (simp add: graphqlErrorsReply_def newError_def initialState_def)
qed

text \<open>
  Claim C10, as stated, fails on a response with status 502 whose body holds an empty
  \<^verbatim>\<open>errors\<close> array: \<^verbatim>\<open>fetchData\<close> throws the HTTP error.
\<close>

theorem C10_empty_errors_counterexample:
  "result (fetchData ''u'' 0
     (FetchResolves \<lparr> ok = False, status = 502,
        json = JsonValue \<lparr> data = None, errors = Some [] \<rparr> \<rparr>))
     = Inl (newError ''HTTP error: 502'')
   \<and> result (fetchData ''u'' 0
     (FetchResolves \<lparr> ok = False, status = 502,
        json = JsonValue \<lparr> data = None, errors = Some [] \<rparr> \<rparr>))
     \<noteq> Inl (newError ''GraphQL errors occurred: see logs for details.'')"
  by (simp add: fetchData_def showNat_examples newError_def)

text \<open>
  Claim C10, amended. For a response with a success status (\<^verbatim>\<open>response.ok\<close>) whose
  body holds an empty \<^verbatim>\<open>errors\<close> array, \<^verbatim>\<open>fetchData\<close> logs nothing and throws
  the error \<^verbatim>\<open>GraphQL errors occurred: see logs for details.\<close>, whatever
  \<^verbatim>\<open>data\<close> holds; the loop, in any state, rejects with that message wrapped and logs
  only the line of the catch, and so does \<^verbatim>\<open>returnTags\<close> on a supported chain.
\<close>

theorem C10_empty_errors:
  assumes "ok response" and "json response = JsonValue res" and "errors res = Some []"
  shows "result (fetchData url t (FetchResolves response))
           = Inl (newError ''GraphQL errors occurred: see logs for details.'')
       \<and> logs (fetchData url t (FetchResolves response)) = []
       \<and> fst (returnTagsLoop chainId url (FetchResolves response # rest) st)
           = Some (Rejected (newError
               ''Failed fetching data: Error: GraphQL errors occurred: see logs for details.''))
       \<and> logged (snd (returnTagsLoop chainId url (FetchResolves response # rest) st))
           = logged st
               @ [ConsoleError ''An error occurred: GraphQL errors occurred: see logs for details.'']
       \<and> (prepareUrl chainId apiKey = Inr url \<longrightarrow>
            fst (returnTags chainId apiKey (FetchResolves response # rest))
              = Some (Rejected (newError
                  ''Failed fetching data: Error: GraphQL errors occurred: see logs for details.'')))"
proof -
  note f = fetchData_errors [OF assms]
  have r: "result (fetchData url (lastTimestamp st) (FetchResolves response))
             = Inl (newError ''GraphQL errors occurred: see logs for details.'')" for st :: run_state
    by (simp add: f)
  have ne: "''GraphQL errors occurred: see logs for details.'' \<noteq> []" by simp
  have a: "fst (returnTagsLoop chainId url (FetchResolves response # rest) st)
           = Some (Rejected (newError
               ''Failed fetching data: Error: GraphQL errors occurred: see logs for details.''))"
    for st :: run_state
    using returnTagsLoop_rejects(1) [OF r [of st] ne, where chainId = chainId and replies = rest] by simp
  have b: "logged (snd (returnTagsLoop chainId url (FetchResolves response # rest) st))
           = logged st
               @ [ConsoleError ''An error occurred: GraphQL errors occurred: see logs for details.'']"
    using returnTagsLoop_rejects(2) [OF r [of st] ne, where chainId = chainId and replies = rest] by (simp add: f)
  have c: "fst (returnTags chainId apiKey (FetchResolves response # rest))
              = Some (Rejected (newError
                  ''Failed fetching data: Error: GraphQL errors occurred: see logs for details.''))"
    if "prepareUrl chainId apiKey = Inr url"
    by (simp add: returnTags_loop [OF that] a)
  show ?thesis
    using a [of st] b c by (simp add: f)
qed

theorem C10_empty_errors_witness:
  "result (fetchData exampleUrl 0 emptyErrorsReply)
     = Inl (ErrorObject ''Error'' ''GraphQL errors occurred: see logs for details.'')
   \<and> logs (fetchData exampleUrl 0 emptyErrorsReply) = []
   \<and> fst (returnTags ''1'' ''K1'' [emptyErrorsReply])
       = Some (Rejected (ErrorObject ''Error''
           ''Failed fetching data: Error: GraphQL errors occurred: see logs for details.''))
   \<and> logged (snd (returnTagsLoop ''1'' exampleUrl [emptyErrorsReply] initialState))
       = [ConsoleError ''An error occurred: GraphQL errors occurred: see logs for details.'']"
  using C10_empty_errors [where response = "\<lparr> ok = True, status = 200,
       json = JsonValue \<lparr> data = None, errors = Some [] \<rparr> \<rparr>"
      and res = "\<lparr> data = None, errors = Some [] \<rparr>" and url = exampleUrl and t = 0
      and chainId = "''1''" and rest = "[]" and st = initialState and apiKey = "''K1''"]
    prepareUrl_example
  by (simp add: emptyErrorsReply_def newError_def initialState_def)

lemma returnTags_name_bound:
  assumes "fst (returnTags chainId apiKey replies) = Some (Resolved tags)"
    and "tag \<in> set tags"
  shows "length (Public_Name_Tag tag) \<le> 50"
proof -
  from returnTags_resolved [OF assms(1)] obtain pss where
    "tags = concat (map (\<lambda>ps. fst (transformPoolsToTags chainId ps)) pss)"
    by blast
  with assms(2) obtain ps where "tag \<in> set (fst (transformPoolsToTags chainId ps))"
    by auto
  then show ?thesis
    by (rule transformPoolsToTags_name_bound)
qed

text \<open>
  Claim C9. Every tag produced by \<^verbatim>\<open>transformPoolsToTags\<close>, and so every tag of
  a list that \<^verbatim>\<open>returnTags\<close> resolves with, has a \<^verbatim>\<open>"Public Name Tag"\<close> of at most
  50 characters: the name tag is the result of \<^verbatim>\<open>truncateString\<close> with the maximal
  length 45, which has at most 45 characters (the result is never longer than a maximal
  length of 3 or more), followed by \<^verbatim>\<open>" Pool"\<close>, which adds 5.
\<close>

theorem C9_name_tag_bound:
  "(\<forall>tag \<in> set (fst (transformPoolsToTags chainId ps)). length (Public_Name_Tag tag) \<le> 50)
   \<and> (fst (returnTags chainId apiKey replies) = Some (Resolved tags) \<longrightarrow>
        (\<forall>tag \<in> set tags. length (Public_Name_Tag tag) \<le> 50))
   \<and> (3 \<le> maxLength \<longrightarrow> int (length (truncateString s maxLength)) \<le> maxLength)
   \<and> length (truncateString s 45) \<le> 45
   \<and> Public_Name_Tag (poolToTag chainId pool)
       = truncateString (symbol (token0 pool) @ ''/'' @ symbol (token1 pool)) 45 @ '' Pool''"
proof -
  have "int (length (truncateString s 45)) \<le> 45"
    by (rule length_truncateString) simp
  then have "length (truncateString s 45) \<le> 45" by simp
  moreover have "Public_Name_Tag (poolToTag chainId pool)
       = truncateString (symbol (token0 pool) @ ''/'' @ symbol (token1 pool)) 45 @ '' Pool''"
    by (simp add: poolToTag_def Let_def)
  ultimately show ?thesis
    using transformPoolsToTags_name_bound [of _ chainId ps]
      returnTags_name_bound [of chainId apiKey replies tags]
      length_truncateString [of maxLength s]
    by blast
qed

theorem C9_name_tag_bound_witness:
  "map (\<lambda>tag. length (Public_Name_Tag tag)) (fst (transformPoolsToTags ''1'' [longPool, usdcWethPool]))
     = [50, 14]
   \<and> fst (returnTags ''1'' ''K1'' [pageReply [usdcWethPool]])
       = Some (Resolved (fst (transformPoolsToTags ''1'' [usdcWethPool])))
   \<and> list_all (\<lambda>tag. length (Public_Name_Tag tag) \<le> 50) (fst (transformPoolsToTags ''1'' [usdcWethPool]))
   \<and> (3::int) \<le> 5 \<and> truncateString ''abcdefgh'' 5 = ''ab...''
   \<and> int (length (truncateString ''abcdefgh'' 5)) \<le> 5"
proof -
  have one: "fst (returnTags ''1'' ''K1'' [pageReply [usdcWethPool]])
       = Some (Resolved (fst (transformPoolsToTags ''1'' [usdcWethPool])))"
    by (simp add: returnTags_single_page)
  note inst = C9_name_tag_bound [where chainId = "''1''" and ps = "[longPool, usdcWethPool]"
      and apiKey = "''K1''" and replies = "[pageReply [usdcWethPool]]"
      and tags = "fst (transformPoolsToTags ''1'' [usdcWethPool])"
      and maxLength = 5 and s = "''abcdefgh''"]
  have a: "list_all (\<lambda>tag. length (Public_Name_Tag tag) \<le> 50) (fst (transformPoolsToTags ''1'' [usdcWethPool]))"
    using inst one by (simp add: list_all_iff)
  have b: "int (length (truncateString ''abcdefgh'' 5)) \<le> 5"
    using inst by simp
  have c: "truncateString ''abcdefgh'' 5 = ''ab...''"
    by (simp add: truncateString_def substring_def)
  have d: "map (\<lambda>tag. length (Public_Name_Tag tag)) (fst (transformPoolsToTags ''1'' [longPool, usdcWethPool]))
     = [50, 14]"
  proof -
    have "fst (transformPoolsToTags ''1'' [longPool, usdcWethPool])
            = [poolToTag ''1'' longPool, poolToTag ''1'' usdcWethPool]"
      by (simp add: fst_transformPoolsToTags poolRejected_longPool poolRejected_usdcWethPool)
    then show ?thesis
      by (simp add: poolToTag_fields longPool_def longToken0_def longToken1_def
          usdcWethPool_def usdc_def weth_def)
  qed
  from a b c d one show ?thesis by simp
qed

end
